theory Spec2Isabelle
  imports Main "HOL-Library.Sublist"
begin

section \<open>String operations of the source language\<close>

text \<open>
  Strings are lists of characters; one \<^typ>\<open>char\<close> stands for one code unit of the
  source's strings. Only comparison, concatenation, prefix, suffix, search and slicing are
  used, and these act on code units one by one.
\<close>

definition startsWith :: "string \<Rightarrow> string \<Rightarrow> bool" where
  "startsWith s p = prefix p s"

definition endsWith :: "string \<Rightarrow> string \<Rightarrow> bool" where
  "endsWith s p = prefix (rev p) (rev s)"

text \<open>\<open>s.includes(sub)\<close>: \<open>sub\<close> occurs in \<open>s\<close> as a contiguous run.\<close>

fun includesStr :: "string \<Rightarrow> string \<Rightarrow> bool" where
  "includesStr [] sub = (sub = [])"
| "includesStr (c # cs) sub = (prefix sub (c # cs) \<or> includesStr cs sub)"

text \<open>\<open>s.lastIndexOf(c)\<close>: the index of the last occurrence, \<open>-1\<close> when there is none.\<close>

fun lastIndexOf :: "string \<Rightarrow> char \<Rightarrow> int" where
  "lastIndexOf [] c = - 1"
| "lastIndexOf (x # xs) c =
     (if 0 \<le> lastIndexOf xs c then lastIndexOf xs c + 1
      else if x = c then 0 else - 1)"

text \<open>\<open>s.slice(b, e)\<close>: a negative index counts from the end, and both are clamped.\<close>

definition clampIndex :: "int \<Rightarrow> nat \<Rightarrow> nat" where
  "clampIndex i n = (if i < 0 then nat (max (int n + i) 0) else min (nat i) n)"

definition slice :: "string \<Rightarrow> int \<Rightarrow> int \<Rightarrow> string" where
  "slice s b e = take (clampIndex e (length s) - clampIndex b (length s))
                      (drop (clampIndex b (length s)) s)"

definition sliceFrom :: "string \<Rightarrow> int \<Rightarrow> string" where
  "sliceFrom s b = slice s b (int (length s))"

text \<open>\<open>s.split(sep)\<close> for a one-character separator; the result is never empty.\<close>

fun split :: "string \<Rightarrow> char \<Rightarrow> string list" where
  "split [] sep = [[]]"
| "split (c # cs) sep =
     (if c = sep then [] # split cs sep
      else (case split cs sep of [] \<Rightarrow> [[c]] | s # ss \<Rightarrow> (c # s) # ss))"

text \<open>\<open>xs.pop()\<close> on a non-empty array is its last element.\<close>

definition pop :: "string list \<Rightarrow> string" where
  "pop xs = last xs"

text \<open>\<open>s.replace(/^\<^verbatim>\<open>\\<close>//, '')\<close>: one leading slash is removed.\<close>

fun stripLeadingSlash :: "string \<Rightarrow> string" where
  "stripLeadingSlash [] = []"
| "stripLeadingSlash (c # cs) = (if c = CHR ''/'' then cs else c # cs)"

fun join :: "string list \<Rightarrow> string \<Rightarrow> string" where
  "join [] sep = []"
| "join [x] sep = x"
| "join (x # y # ys) sep = x @ sep @ join (y # ys) sep"

text \<open>Decimal printing of an array length inside a template string.\<close>

definition digit :: "nat \<Rightarrow> char" where
  "digit n = ''0123456789'' ! (n mod 10)"

function numString :: "nat \<Rightarrow> string" where
  "numString n = (if n < 10 then [digit n] else numString (n div 10) @ [digit (n mod 10)])"
  by pat_completeness auto
termination
  by (relation "measure id") auto

section \<open>The provider: requests, responses and the trace of calls\<close>

text \<open>
  Every \<open>fetch\<close> of the handlers is a request to the hosting provider. A request is its
  method, its URL and its JSON body; the constant headers (bearer token, accept, user agent)
  are left out. The provider is a function of the requests issued so far and the current
  request, so its answers may depend on everything that happened before. The trace of issued
  requests is the state that the handlers thread through their calls.
\<close>

datatype http_method = GET | POST | PUT | PATCH | DELETE

record tree_entry =
  te_path :: string
  te_mode :: string
  te_type :: string
  te_sha :: string
  te_size :: "nat option"
  te_url :: string

record new_tree_entry =
  nt_path :: string
  nt_mode :: string
  nt_type :: string
  nt_sha :: string

record content_entry =
  ce_name :: string
  ce_path :: string
  ce_sha :: string
  ce_type :: string

text \<open>
  A request body, as the object handed to \<open>JSON.stringify\<close>. A field that holds
  \<open>undefined\<close> is \<open>None\<close> (it is dropped from the JSON text).
\<close>

datatype request_body =
    NoRequestBody
  | TreeBody "new_tree_entry list"
  | CommitBody string "string option" "string list"
  | RefBody "string option"
  | PutBody string "string option" string "string option"
  | DeleteBody string string string

record request =
  rq_method :: http_method
  rq_url :: string
  rq_body :: request_body

text \<open>
  A response body is modelled by the shape the handlers read it at. \<open>Malformed\<close> stands
  for every body on which \<open>json()\<close> raises; a body of another shape than the one a handler
  dereferences through two levels (\<open>refData.object.sha\<close>, \<open>commitData.tree.sha\<close>,
  \<open>treeData.tree.filter\<close>, iterating a listing) makes that read raise as well, whereas a
  missing top-level field reads as \<open>undefined\<close>.
\<close>

datatype payload =
    Malformed
  | RefData string
  | CommitData string
  | TreeData "tree_entry list"
  | ShaData string
  | FileData string string
  | ListingData "content_entry list"

datatype response = NetworkError | Resp nat payload

type_synonym trace = "request list"
type_synonym provider = "trace \<Rightarrow> request \<Rightarrow> response"

definition ok :: "nat \<Rightarrow> bool" where
  "ok st = (200 \<le> st \<and> st \<le> 299)"

definition fetch :: "provider \<Rightarrow> trace \<Rightarrow> request \<Rightarrow> response \<times> trace" where
  "fetch env tr rq = (env tr rq, tr @ [rq])"

text \<open>Reads of response fields: the outer \<open>None\<close> is a raised error, the inner one \<open>undefined\<close>.\<close>

fun object_sha :: "payload \<Rightarrow> string option" where
  "object_sha (RefData s) = Some s"
| "object_sha _ = None"

fun tree_sha :: "payload \<Rightarrow> string option" where
  "tree_sha (CommitData s) = Some s"
| "tree_sha _ = None"

fun tree_list :: "payload \<Rightarrow> tree_entry list option" where
  "tree_list (TreeData es) = Some es"
| "tree_list _ = None"

fun sha_field :: "payload \<Rightarrow> string option option" where
  "sha_field Malformed = None"
| "sha_field (ShaData s) = Some (Some s)"
| "sha_field (FileData c s) = Some (Some s)"
| "sha_field _ = Some None"

fun content_field :: "payload \<Rightarrow> string option option" where
  "content_field Malformed = None"
| "content_field (FileData c s) = Some (Some c)"
| "content_field _ = Some None"

fun listing :: "payload \<Rightarrow> content_entry list option" where
  "listing (ListingData es) = Some es"
| "listing _ = None"

text \<open>
  What a piece of handler code does: it returns a value or it throws (the message of the
  error). The recursive lister, and what calls it, takes a bound on the depth of nested calls
  and yields \<open>None\<close> when the bound is exhausted before it has returned.
\<close>

datatype 'a result = Returned 'a | Threw string

text \<open>The handlers' own HTTP responses; the \<open>details\<close> of a validation error are left out.\<close>

record move_detail =
  d_src :: string
  d_dest :: string
  d_status :: string

datatype response_body =
    NoBody
  | ErrorBody string
  | DeleteSuccess nat
  | MoveSuccess nat nat "move_detail list"

record http_response =
  status :: nat
  body :: response_body

text \<open>The profile row of the caller, as the identity store returns it.\<close>

record profile =
  github_username :: string
  github_access_token :: string

section \<open>The delete handler (\<open>delete-items/index.ts\<close>)\<close>

record delete_item =
  di_path :: string
  di_type :: string

record delete_request =
  dr_owner :: string
  dr_repo :: string
  dr_branch :: "string option"
  dr_items :: "delete_item list"

text \<open>The request: its method and the result of \<open>req.json()\<close> (\<open>None\<close> when it raises).\<close>

record 'a http_request =
  hr_method :: string
  hr_json :: "'a option"

definition alnum :: "char \<Rightarrow> bool" where
  "alnum c = (c \<in> set ''abcdefghijklmnopqrstuvwxyzABCDEFGHIJKLMNOPQRSTUVWXYZ0123456789'')"

definition ownerChar :: "char \<Rightarrow> bool" where
  "ownerChar c = (alnum c \<or> c = CHR ''-'')"

definition repoChar :: "char \<Rightarrow> bool" where
  "repoChar c = (alnum c \<or> c = CHR ''.'' \<or> c = CHR ''_'' \<or> c = CHR ''-'')"

definition pathSchema :: "string \<Rightarrow> bool" where
  "pathSchema p = (1 \<le> length p \<and> length p \<le> 4096 \<and>
     (\<not> includesStr p ''..'' \<and> \<not> startsWith p ''/''))"

definition itemSchema :: "delete_item \<Rightarrow> bool" where
  "itemSchema i = (pathSchema (di_path i) \<and> (di_type i = ''file'' \<or> di_type i = ''dir''))"

definition branchSchema :: "string option \<Rightarrow> bool" where
  "branchSchema b = (case b of None \<Rightarrow> True | Some s \<Rightarrow> 1 \<le> length s \<and> length s \<le> 255)"

definition deleteItemsSchema :: "delete_request \<Rightarrow> bool" where
  "deleteItemsSchema r =
     ((1 \<le> length (dr_owner r) \<and> length (dr_owner r) \<le> 39 \<and> list_all ownerChar (dr_owner r)) \<and>
      (1 \<le> length (dr_repo r) \<and> length (dr_repo r) \<le> 100 \<and> list_all repoChar (dr_repo r)) \<and>
      branchSchema (dr_branch r) \<and>
      (list_all itemSchema (dr_items r) \<and> 1 \<le> length (dr_items r)))"

text \<open>Lines 132 to 153: the exclusion sets and the filtered tree.\<close>

definition dirPaths :: "delete_item list \<Rightarrow> string list" where
  "dirPaths items =
     map (\<lambda>d. if endsWith (di_path d) ''/'' then di_path d else di_path d @ ''/'')
         (filter (\<lambda>i. di_type i = ''dir'') items)"

definition filePaths :: "delete_item list \<Rightarrow> string set" where
  "filePaths items = set (map di_path (filter (\<lambda>i. di_type i = ''file'') items))"

definition keptEntry :: "delete_item list \<Rightarrow> tree_entry \<Rightarrow> bool" where
  "keptEntry items item =
     (let inDeletedDir = list_ex (\<lambda>dp. startsWith (te_path item) dp) (dirPaths items);
          isDeletedFile = (te_path item \<in> filePaths items)
      in \<not> inDeletedDir \<and> \<not> isDeletedFile)"

definition newTree :: "delete_item list \<Rightarrow> tree_entry list \<Rightarrow> new_tree_entry list" where
  "newTree items tree =
     map (\<lambda>item. \<lparr>nt_path = te_path item, nt_mode = te_mode item,
                   nt_type = te_type item, nt_sha = te_sha item\<rparr>)
       (filter (\<lambda>item. te_type item = ''blob'')
         (filter (keptEntry items) tree))"

text \<open>Lines 182 to 198: the commit message. The elision mark is kept as the bytes of the
  source file's literal.\<close>

definition elision :: string where
  "elision = map char_of [195, 162, 226, 130, 172, 194, 166 :: nat]"

definition deleteSummary :: "delete_item list \<Rightarrow> string" where
  "deleteSummary items =
     join (take 10 (map (\<lambda>i. (if di_type i = ''dir'' then ''dir'' else ''file'') @ '':'' @ di_path i)
                        items)) '', ''"

definition commitMessage :: "delete_item list \<Rightarrow> string" where
  "commitMessage items =
     ''Batch delete '' @ numString (length items) @ '' item(s): '' @ deleteSummary items @
     (if 10 < length items then elision else [])"

text \<open>The six requests of the pipeline.\<close>

definition gitUrl :: "string \<Rightarrow> string \<Rightarrow> string \<Rightarrow> string" where
  "gitUrl owner repo rest = ''https://api.github.com/repos/'' @ owner @ ''/'' @ repo @ ''/git/'' @ rest"

definition getRef :: "string \<Rightarrow> string \<Rightarrow> string \<Rightarrow> request" where
  "getRef owner repo branchName =
     \<lparr>rq_method = GET, rq_url = gitUrl owner repo (''refs/heads/'' @ branchName),
      rq_body = NoRequestBody\<rparr>"

definition getCommit :: "string \<Rightarrow> string \<Rightarrow> string \<Rightarrow> request" where
  "getCommit owner repo currentCommitSha =
     \<lparr>rq_method = GET, rq_url = gitUrl owner repo (''commits/'' @ currentCommitSha),
      rq_body = NoRequestBody\<rparr>"

definition getTree :: "string \<Rightarrow> string \<Rightarrow> string \<Rightarrow> request" where
  "getTree owner repo baseTreeSha =
     \<lparr>rq_method = GET, rq_url = gitUrl owner repo (''trees/'' @ baseTreeSha @ ''?recursive=1''),
      rq_body = NoRequestBody\<rparr>"

definition createTree :: "string \<Rightarrow> string \<Rightarrow> new_tree_entry list \<Rightarrow> request" where
  "createTree owner repo entries =
     \<lparr>rq_method = POST, rq_url = gitUrl owner repo ''trees'', rq_body = TreeBody entries\<rparr>"

definition createCommit ::
  "string \<Rightarrow> string \<Rightarrow> string \<Rightarrow> string option \<Rightarrow> string \<Rightarrow> request" where
  "createCommit owner repo message newTreeSha currentCommitSha =
     \<lparr>rq_method = POST, rq_url = gitUrl owner repo ''commits'',
      rq_body = CommitBody message newTreeSha [currentCommitSha]\<rparr>"

definition updateRef :: "string \<Rightarrow> string \<Rightarrow> string \<Rightarrow> string option \<Rightarrow> request" where
  "updateRef owner repo branchName newCommitSha =
     \<lparr>rq_method = PATCH, rq_url = gitUrl owner repo (''refs/heads/'' @ branchName),
      rq_body = RefBody newCommitSha\<rparr>"

definition respond :: "nat \<Rightarrow> response_body \<Rightarrow> http_response" where
  "respond st b = \<lparr>status = st, body = b\<rparr>"

text \<open>
  An upstream failure is answered with the upstream status. Constructing a response with a
  body raises for a status outside 200 to 599 and for the statuses that admit no body; the
  error then reaches the handler's \<open>catch\<close>. Reading the text of a failed upstream response,
  which the handler only logs, is taken to succeed.
\<close>

definition mirror :: "nat \<Rightarrow> string \<Rightarrow> http_response result" where
  "mirror st message =
     (if st < 200 \<or> 599 < st \<or> st = 204 \<or> st = 205 \<or> st = 304
      then Threw ''Failed to construct Response: invalid status''
      else Returned (respond st (ErrorBody message)))"

text \<open>
  The body of the handler's \<open>try\<close> block, after the \<open>OPTIONS\<close> test. The result of
  \<open>getGitHubToken(req)\<close>, a helper of the repository that is not among the sources, is the
  parameter \<open>profile\<close> (\<open>None\<close> for \<open>null\<close>).
\<close>

definition deleteItemsTry ::
  "provider \<Rightarrow> profile option \<Rightarrow> delete_request option \<Rightarrow> http_response result \<times> trace" where
  "deleteItemsTry env profile json =
    (case json of
       None \<Rightarrow> (Threw ''Unexpected end of JSON input'', [])
     | Some data \<Rightarrow>
       if \<not> deleteItemsSchema data then (Returned (respond 400 (ErrorBody ''Invalid input'')), [])
       else (case profile of
         None \<Rightarrow> (Returned (respond 401 (ErrorBody ''Unauthorized'')), [])
       | Some prof \<Rightarrow>
         if dr_owner data \<noteq> github_username prof
         then (Returned (respond 403
                 (ErrorBody ''Unauthorized: can only access your own repositories'')), [])
         else
           let owner = dr_owner data; repo = dr_repo data; items = dr_items data;
               branchName = (case dr_branch data of None \<Rightarrow> ''main''
                              | Some b \<Rightarrow> if b = [] then ''main'' else b)
           in (case fetch env [] (getRef owner repo branchName) of
             (NetworkError, tr1) \<Rightarrow> (Threw ''fetch failed'', tr1)
           | (Resp st1 refBody, tr1) \<Rightarrow>
             if \<not> ok st1
             then (mirror st1 ''Failed to get branch reference'', tr1)
             else (case object_sha refBody of
               None \<Rightarrow> (Threw ''Cannot read properties of undefined'', tr1)
             | Some currentCommitSha \<Rightarrow>
               (case fetch env tr1 (getCommit owner repo currentCommitSha) of
                 (NetworkError, tr2) \<Rightarrow> (Threw ''fetch failed'', tr2)
               | (Resp st2 commitBody, tr2) \<Rightarrow>
                 if \<not> ok st2
                 then (mirror st2 ''Failed to get commit'', tr2)
                 else (case tree_sha commitBody of
                   None \<Rightarrow> (Threw ''Cannot read properties of undefined'', tr2)
                 | Some baseTreeSha \<Rightarrow>
                   (case fetch env tr2 (getTree owner repo baseTreeSha) of
                     (NetworkError, tr3) \<Rightarrow> (Threw ''fetch failed'', tr3)
                   | (Resp st3 treeBody, tr3) \<Rightarrow>
                     if \<not> ok st3
                     then (mirror st3 ''Failed to get tree'', tr3)
                     else (case tree_list treeBody of
                       None \<Rightarrow> (Threw ''Cannot read properties of undefined'', tr3)
                     | Some tree \<Rightarrow>
                       (case fetch env tr3 (createTree owner repo (newTree items tree)) of
                         (NetworkError, tr4) \<Rightarrow> (Threw ''fetch failed'', tr4)
                       | (Resp st4 newTreeBody, tr4) \<Rightarrow>
                         if \<not> ok st4
                         then (mirror st4 ''Failed to create new tree'', tr4)
                         else (case sha_field newTreeBody of
                           None \<Rightarrow> (Threw ''Unexpected end of JSON input'', tr4)
                         | Some newTreeSha \<Rightarrow>
                           (case fetch env tr4 (createCommit owner repo (commitMessage items)
                                                  newTreeSha currentCommitSha) of
                             (NetworkError, tr5) \<Rightarrow> (Threw ''fetch failed'', tr5)
                           | (Resp st5 newCommitBody, tr5) \<Rightarrow>
                             if \<not> ok st5
                             then (mirror st5 ''Failed to create commit'', tr5)
                             else (case sha_field newCommitBody of
                               None \<Rightarrow> (Threw ''Unexpected end of JSON input'', tr5)
                             | Some newCommitSha \<Rightarrow>
                               (case fetch env tr5 (updateRef owner repo branchName newCommitSha) of
                                 (NetworkError, tr6) \<Rightarrow> (Threw ''fetch failed'', tr6)
                               | (Resp st6 uu, tr6) \<Rightarrow>
                                 if \<not> ok st6
                                 then (mirror st6 ''Failed to update branch'', tr6)
                                 else (Returned (respond 200 (DeleteSuccess (length items))),
                                       tr6))))))))))))))"

text \<open>The handler: the \<open>OPTIONS\<close> answer, and the \<open>catch\<close> that turns an error into a 500.\<close>

definition deleteItems ::
  "provider \<Rightarrow> profile option \<Rightarrow> delete_request http_request \<Rightarrow> http_response \<times> trace" where
  "deleteItems env profile req =
    (if hr_method req = ''OPTIONS'' then (respond 200 NoBody, [])
     else (case deleteItemsTry env profile (hr_json req) of
        (Returned r, tr) \<Rightarrow> (r, tr)
      | (Threw errorMessage, tr) \<Rightarrow> (respond 500 (ErrorBody errorMessage), tr)))"

section \<open>The move handler (\<open>move-files/index.ts\<close>)\<close>

datatype item_type = File | Dir

record raw_file =
  rf_path :: string
  rf_sha :: string
  rf_type :: string

record move_request =
  mr_owner :: string
  mr_repo :: string
  mr_files :: "raw_file list"
  mr_destination :: string
  mr_branch :: "string option"

record file_item =
  fi_path :: string
  fi_sha :: string
  fi_type :: item_type

record move_data =
  mv_owner :: string
  mv_repo :: string
  mv_files :: "file_item list"
  mv_destination :: string
  mv_branch :: string

text \<open>\<open>moveFilesSchema.parse(body)\<close>: the parsed value, or \<open>None\<close> when it throws.\<close>

definition fileSchema :: "raw_file \<Rightarrow> bool" where
  "fileSchema f = (rf_type f = ''file'' \<or> rf_type f = ''dir'')"

definition parseFile :: "raw_file \<Rightarrow> file_item" where
  "parseFile f = \<lparr>fi_path = rf_path f, fi_sha = rf_sha f,
                  fi_type = (if rf_type f = ''file'' then File else Dir)\<rparr>"

definition moveFilesSchema :: "move_request \<Rightarrow> move_data option" where
  "moveFilesSchema r =
     (if 1 \<le> length (mr_owner r) \<and> 1 \<le> length (mr_repo r) \<and> list_all fileSchema (mr_files r)
      then Some \<lparr>mv_owner = mr_owner r, mv_repo = mr_repo r,
                 mv_files = map parseFile (mr_files r),
                 mv_destination = mr_destination r,
                 mv_branch = (case mr_branch r of None \<Rightarrow> ''main'' | Some b \<Rightarrow> b)\<rparr>
      else None)"

text \<open>
  The identity store: the user of the session (\<open>supabase.auth.getUser()\<close>) and that user's
  profile row. The handler selects only the access token from the row.
\<close>

record session =
  se_user :: "string option"
  se_profile :: "profile option"

definition contentsUrl :: "string \<Rightarrow> string \<Rightarrow> string \<Rightarrow> string" where
  "contentsUrl owner repo path =
     ''https://api.github.com/repos/'' @ owner @ ''/'' @ repo @ ''/contents/'' @ path"

definition getContents :: "string \<Rightarrow> string \<Rightarrow> string \<Rightarrow> string \<Rightarrow> request" where
  "getContents owner repo path branch =
     \<lparr>rq_method = GET, rq_url = contentsUrl owner repo path @ ''?ref='' @ branch,
      rq_body = NoRequestBody\<rparr>"

definition putContents ::
  "string \<Rightarrow> string \<Rightarrow> string \<Rightarrow> string \<Rightarrow> string option \<Rightarrow> string \<Rightarrow> string option \<Rightarrow> request" where
  "putContents owner repo destPath message content branch sha =
     \<lparr>rq_method = PUT, rq_url = contentsUrl owner repo destPath,
      rq_body = PutBody message content branch sha\<rparr>"

definition deleteContents ::
  "string \<Rightarrow> string \<Rightarrow> string \<Rightarrow> string \<Rightarrow> string \<Rightarrow> string \<Rightarrow> request" where
  "deleteContents owner repo srcPath message sha branch =
     \<lparr>rq_method = DELETE, rq_url = contentsUrl owner repo srcPath,
      rq_body = DeleteBody message sha branch\<rparr>"

subsection \<open>The recursive lister (lines 70 to 87)\<close>

record blob_ref =
  br_path :: string
  br_sha :: string

fun listFilesRecursively ::
  "nat \<Rightarrow> provider \<Rightarrow> string \<Rightarrow> string \<Rightarrow> string \<Rightarrow> trace \<Rightarrow> string
     \<Rightarrow> (blob_ref list result \<times> trace) option"
and listItems ::
  "nat \<Rightarrow> provider \<Rightarrow> string \<Rightarrow> string \<Rightarrow> string \<Rightarrow> trace \<Rightarrow> blob_ref list \<Rightarrow> content_entry list
     \<Rightarrow> (blob_ref list result \<times> trace) option"
where
  "listFilesRecursively 0 env owner repo branch tr dirPath = None"
| "listFilesRecursively (Suc n) env owner repo branch tr dirPath =
     (case fetch env tr (getContents owner repo dirPath branch) of
        (NetworkError, tr1) \<Rightarrow> Some (Threw ''fetch failed'', tr1)
      | (Resp st b, tr1) \<Rightarrow>
          if \<not> ok st then Some (Returned [], tr1)
          else (case listing b of
                  None \<Rightarrow> Some (Threw ''items is not iterable'', tr1)
                | Some items \<Rightarrow> listItems n env owner repo branch tr1 [] items))"
| "listItems n env owner repo branch tr results [] = Some (Returned results, tr)"
| "listItems n env owner repo branch tr results (item # items) =
     (if ce_type item = ''file''
      then listItems n env owner repo branch tr
             (results @ [\<lparr>br_path = ce_path item, br_sha = ce_sha item\<rparr>]) items
      else if ce_type item = ''dir''
      then (case listFilesRecursively n env owner repo branch tr (ce_path item) of
              None \<Rightarrow> None
            | Some (Threw e, tr1) \<Rightarrow> Some (Threw e, tr1)
            | Some (Returned sub, tr1) \<Rightarrow>
                listItems n env owner repo branch tr1 (results @ sub) items)
      else listItems n env owner repo branch tr results items)"

subsection \<open>The single-item mover (lines 90 to 159)\<close>

record move_result =
  r_status :: string
  r_reason :: "string option"

definition moveSingleFile ::
  "provider \<Rightarrow> string \<Rightarrow> string \<Rightarrow> string \<Rightarrow> trace \<Rightarrow> string \<Rightarrow> string \<Rightarrow> string
     \<Rightarrow> move_result result \<times> trace" where
  "moveSingleFile env owner repo branch tr srcPath srcSha destPath =
    (if srcPath = destPath
     then (Returned \<lparr>r_status = ''skipped'', r_reason = Some ''same path''\<rparr>, tr)
     else (case fetch env tr (getContents owner repo srcPath branch) of
        (NetworkError, tr1) \<Rightarrow> (Threw ''fetch failed'', tr1)
      | (Resp st1 srcBody, tr1) \<Rightarrow>
        if \<not> ok st1 then (Threw (''Failed to fetch source content for '' @ srcPath), tr1)
        else (case content_field srcBody of
          None \<Rightarrow> (Threw ''Unexpected end of JSON input'', tr1)
        | Some content \<Rightarrow>
          (case fetch env tr1 (getContents owner repo destPath branch) of
            (NetworkError, tr2) \<Rightarrow> (Threw ''fetch failed'', tr2)
          | (Resp st2 destBody, tr2) \<Rightarrow>
            (case (if ok st2 then sha_field destBody else Some None) of
              None \<Rightarrow> (Threw ''Unexpected end of JSON input'', tr2)
            | Some destSha \<Rightarrow>
              (case fetch env tr2
                      (putContents owner repo destPath
                         (''Move '' @ srcPath @ '' to '' @ destPath) content branch destSha) of
                (NetworkError, tr3) \<Rightarrow> (Threw ''fetch failed'', tr3)
              | (Resp st3 uu, tr3) \<Rightarrow>
                if \<not> ok st3 then (Threw (''Failed to create '' @ destPath), tr3)
                else (case fetch env tr3
                             (deleteContents owner repo srcPath
                                (''Delete old file '' @ srcPath) srcSha branch) of
                  (NetworkError, tr4) \<Rightarrow> (Threw ''fetch failed'', tr4)
                | (Resp st4 vv, tr4) \<Rightarrow>
                  if \<not> ok st4 then (Threw (''Failed to delete '' @ srcPath), tr4)
                  else (Returned \<lparr>r_status = ''moved'', r_reason = None\<rparr>, tr4))))))))"

subsection \<open>The per-item loop (lines 161 to 232)\<close>

record tally =
  movedCount :: nat
  skippedCount :: nat
  details :: "move_detail list"

definition count :: "tally \<Rightarrow> move_result \<Rightarrow> string \<Rightarrow> string \<Rightarrow> tally" where
  "count t result src newPath =
     (if r_status result = ''moved''
      then t\<lparr>movedCount := movedCount t + 1,
             details := details t @ [\<lparr>d_src = src, d_dest = newPath, d_status = r_status result\<rparr>]\<rparr>
      else t\<lparr>skippedCount := skippedCount t + 1,
             details := details t @ [\<lparr>d_src = src, d_dest = newPath, d_status = r_status result\<rparr>]\<rparr>)"

definition skip :: "tally \<Rightarrow> string \<Rightarrow> string \<Rightarrow> string \<Rightarrow> tally" where
  "skip t src destination st =
     t\<lparr>skippedCount := skippedCount t + 1,
       details := details t @
         [\<lparr>d_src = src, d_dest = (if destination = [] then ''root'' else destination),
           d_status = st\<rparr>]\<rparr>"

definition fileName :: "string \<Rightarrow> string" where
  "fileName path = pop (split path CHR ''/'')"

definition sourceDir :: "string \<Rightarrow> string" where
  "sourceDir path =
     (if includesStr path ''/'' then slice path 0 (lastIndexOf path CHR ''/'') else [])"

text \<open>
  Lines 166 to 198, the checks at the head of the loop body: what they decide for one item.
  (\<open>parentDir\<close> of a directory item is computed by the same expression as \<open>sourceDir\<close>.)
\<close>

datatype precheck = SkipSameFolder | SkipSameParent | RejectCycle | Proceed

definition precheck :: "string \<Rightarrow> file_item \<Rightarrow> precheck" where
  "precheck destination file =
     (if fi_type file = File
      then (if destination = sourceDir (fi_path file) then SkipSameFolder else Proceed)
      else (if destination = sourceDir (fi_path file) then SkipSameParent
            else if destination = fi_path file \<or>
                    (destination \<noteq> [] \<and> startsWith destination (fi_path file @ ''/''))
            then RejectCycle else Proceed))"

definition cycleMessage :: "string \<Rightarrow> string \<Rightarrow> string" where
  "cycleMessage path destination =
     ''Cannot move folder '' @ [CHR 0x22] @ path @ [CHR 0x22] @
     '' into itself or its descendant '' @ [CHR 0x22] @ destination @ [CHR 0x22]"

text \<open>Lines 208 to 219: the files of one directory, moved one by one.\<close>

fun moveDirFiles ::
  "provider \<Rightarrow> string \<Rightarrow> string \<Rightarrow> string \<Rightarrow> string \<Rightarrow> string \<Rightarrow> trace \<Rightarrow> tally \<Rightarrow> blob_ref list
     \<Rightarrow> tally result \<times> trace" where
  "moveDirFiles env owner repo branch filePath targetDir tr t [] = (Returned t, tr)"
| "moveDirFiles env owner repo branch filePath targetDir tr t (df # dfs) =
     (let relative = stripLeadingSlash (sliceFrom (br_path df) (int (length filePath)));
          newPath = targetDir @ ''/'' @ relative
      in (case moveSingleFile env owner repo branch tr (br_path df) (br_sha df) newPath of
            (Threw e, tr1) \<Rightarrow> (Threw e, tr1)
          | (Returned result, tr1) \<Rightarrow>
              moveDirFiles env owner repo branch filePath targetDir tr1
                (count t result (br_path df) newPath) dfs))"

text \<open>The loop ends by running through the selection, or by the early 400 response.\<close>

datatype loop_end = Finished tally | Respond http_response

fun moveLoop ::
  "nat \<Rightarrow> provider \<Rightarrow> string \<Rightarrow> string \<Rightarrow> string \<Rightarrow> string \<Rightarrow> trace \<Rightarrow> tally \<Rightarrow> file_item list
     \<Rightarrow> (loop_end result \<times> trace) option" where
  "moveLoop fuel env owner repo branch destination tr t [] = Some (Returned (Finished t), tr)"
| "moveLoop fuel env owner repo branch destination tr t (file # files) =
     (case precheck destination file of
        SkipSameFolder \<Rightarrow>
          moveLoop fuel env owner repo branch destination tr
            (skip t (fi_path file) destination ''skipped (same folder)'') files
      | SkipSameParent \<Rightarrow>
          moveLoop fuel env owner repo branch destination tr
            (skip t (fi_path file) destination ''skipped (same parent)'') files
      | RejectCycle \<Rightarrow>
          Some (Returned (Respond (respond 400 (ErrorBody (cycleMessage (fi_path file) destination)))),
                tr)
      | Proceed \<Rightarrow>
          if fi_type file = Dir
          then (let dirBaseName = pop (split (fi_path file) CHR ''/'');
                    targetDir = (if destination \<noteq> [] then destination @ ''/'' @ dirBaseName
                                 else dirBaseName)
                in (case listFilesRecursively fuel env owner repo branch tr (fi_path file) of
                      None \<Rightarrow> None
                    | Some (Threw e, tr1) \<Rightarrow> Some (Threw e, tr1)
                    | Some (Returned dirFiles, tr1) \<Rightarrow>
                        (case moveDirFiles env owner repo branch (fi_path file) targetDir tr1 t
                                dirFiles of
                           (Threw e, tr2) \<Rightarrow> Some (Threw e, tr2)
                         | (Returned t2, tr2) \<Rightarrow>
                             moveLoop fuel env owner repo branch destination tr2 t2 files)))
          else (let newPath = (if destination \<noteq> [] then destination @ ''/'' @ fileName (fi_path file)
                               else fileName (fi_path file))
                in (case moveSingleFile env owner repo branch tr (fi_path file) (fi_sha file)
                           newPath of
                      (Threw e, tr1) \<Rightarrow> Some (Threw e, tr1)
                    | (Returned result, tr1) \<Rightarrow>
                        moveLoop fuel env owner repo branch destination tr1
                          (count t result (fi_path file) newPath) files)))"

subsection \<open>The handler\<close>

definition moveFilesTry ::
  "nat \<Rightarrow> provider \<Rightarrow> session \<Rightarrow> move_request option \<Rightarrow> (http_response result \<times> trace) option" where
  "moveFilesTry fuel env sess json =
    (case json of
       None \<Rightarrow> Some (Threw ''Unexpected end of JSON input'', [])
     | Some b \<Rightarrow>
       (case moveFilesSchema b of
          None \<Rightarrow> Some (Threw ''ZodError'', [])
        | Some data \<Rightarrow>
          (case se_user sess of
             None \<Rightarrow> Some (Returned (respond 401 (ErrorBody ''Unauthorized'')), [])
           | Some user \<Rightarrow>
             (case se_profile sess of
                None \<Rightarrow> Some (Returned (respond 401 (ErrorBody ''GitHub token not found'')), [])
              | Some prof \<Rightarrow>
                if github_access_token prof = []
                then Some (Returned (respond 401 (ErrorBody ''GitHub token not found'')), [])
                else (case moveLoop fuel env (mv_owner data) (mv_repo data) (mv_branch data)
                             (mv_destination data) []
                             \<lparr>movedCount = 0, skippedCount = 0, details = []\<rparr> (mv_files data) of
                        None \<Rightarrow> None
                      | Some (Threw e, tr) \<Rightarrow> Some (Threw e, tr)
                      | Some (Returned (Respond r), tr) \<Rightarrow> Some (Returned r, tr)
                      | Some (Returned (Finished t), tr) \<Rightarrow>
                          Some (Returned (respond 200
                                  (MoveSuccess (movedCount t) (skippedCount t) (details t))), tr))))))"

definition moveFiles ::
  "nat \<Rightarrow> provider \<Rightarrow> session \<Rightarrow> move_request http_request \<Rightarrow> (http_response \<times> trace) option" where
  "moveFiles fuel env sess req =
    (if hr_method req = ''OPTIONS'' then Some (respond 200 NoBody, [])
     else (case moveFilesTry fuel env sess (hr_json req) of
        None \<Rightarrow> None
      | Some (Returned r, tr) \<Rightarrow> Some (r, tr)
      | Some (Threw errorMessage, tr) \<Rightarrow> Some (respond 500 (ErrorBody errorMessage), tr)))"

section \<open>The client-side validator (\<open>MoveItemsDialog.tsx\<close>, lines 79 to 101)\<close>

record FileItem =
  name :: string
  path :: string
  sha :: string
  type :: item_type

record validation =
  invalid :: bool
  reason :: "string option"

fun checkSelected :: "string \<Rightarrow> FileItem list \<Rightarrow> validation" where
  "checkSelected resolvedDest [] = \<lparr>invalid = False, reason = None\<rparr>"
| "checkSelected resolvedDest (file # files) =
     (if type file = Dir
      then (if resolvedDest = path file
            then \<lparr>invalid = True, reason = Some ''cannot move folder into itself''\<rparr>
            else if startsWith resolvedDest (path file @ ''/'')
            then \<lparr>invalid = True, reason = Some ''cannot move folder into its descendant''\<rparr>
            else checkSelected resolvedDest files)
      else checkSelected resolvedDest files)"

definition resolve :: "string \<Rightarrow> string" where
  "resolve dest = (if dest = ''Root'' then [] else dest)"

definition isInvalidDestination :: "FileItem list \<Rightarrow> string \<Rightarrow> string \<Rightarrow> validation" where
  "isInvalidDestination files currentPath dest =
     (let resolvedDest = resolve dest;
          normalizedCurrent = (if currentPath \<noteq> [] then currentPath else [])
      in if resolvedDest = normalizedCurrent
         then \<lparr>invalid = True, reason = Some ''same as current folder''\<rparr>
         else checkSelected resolvedDest files)"

text \<open>\<open>handleMove\<close>, line 123: the items as they are sent to the move handler.\<close>

definition sentFile :: "FileItem \<Rightarrow> file_item" where
  "sentFile f = \<lparr>fi_path = path f, fi_sha = sha f, fi_type = type f\<rparr>"

section \<open>Observing a run\<close>

text \<open>
  A request has succeeded when the provider answered it with a status from 200 to 299.
  \<open>replay env pre tr\<close> lists the provider's answers to the requests of \<open>tr\<close>, issued in
  turn after the history \<open>pre\<close>.
\<close>

definition succeeded :: "response \<Rightarrow> bool" where
  "succeeded r = (case r of NetworkError \<Rightarrow> False | Resp st p \<Rightarrow> ok st)"

fun replay :: "provider \<Rightarrow> trace \<Rightarrow> trace \<Rightarrow> response list" where
  "replay env pre [] = []"
| "replay env pre (r # rs) = env pre r # replay env (pre @ [r]) rs"

definition issued :: "http_method \<Rightarrow> trace \<Rightarrow> bool" where
  "issued m tr = list_ex (\<lambda>r. rq_method r = m) tr"

text \<open>A request that creates a tree or a commit object, and touches no ref.\<close>

definition createsObject :: "request \<Rightarrow> bool" where
  "createsObject r = (rq_method r = POST \<and>
     (case rq_body r of TreeBody es \<Rightarrow> True | CommitBody m t ps \<Rightarrow> True | _ \<Rightarrow> False))"

definition isError :: "http_response \<Rightarrow> bool" where
  "isError r = (status r \<noteq> 200 \<and> (case body r of ErrorBody m \<Rightarrow> True | _ \<Rightarrow> False))"

text \<open>
  The execution-side check marks a destination invalid for a selection when the checks at the
  head of the loop body skip or reject some item of the selection.
\<close>

definition serverInvalid :: "string \<Rightarrow> file_item list \<Rightarrow> bool" where
  "serverInvalid destination files = list_ex (\<lambda>f. precheck destination f \<noteq> Proceed) files"

text \<open>
  What the lister is to return. An \<open>answer\<close> records what the provider serves for one
  directory: a refusal (a status outside 200 to 299, with its body), or a listing, whose
  entries are \<open>nodes\<close>. A node is a plain entry (a file, a symbolic link, a submodule), or a
  folder: an entry of type \<open>dir\<close> together with the answer for that directory. So an answer
  is the finite tree of listings below a directory, as far as listings are granted.

  \<open>blobs\<close> reads the expected result off the tree: path and identifier of the entries of
  type \<open>file\<close>, in the order of the listings, the files of a folder in the place of the
  folder. \<open>requests\<close> are the contents requests of a traversal of the tree, and \<open>height\<close> is
  the depth to which folders are nested.

  \<open>serves env owner repo branch tr d t\<close> says that the provider \<open>env\<close>, asked after the
  history \<open>tr\<close> for the directory \<open>d\<close> and then, in turn, for the folders of the tree, gives
  the answers that the tree \<open>t\<close> records. It constrains the provider at these requests and
  histories only.
\<close>

definition blobRef :: "content_entry \<Rightarrow> blob_ref" where
  "blobRef e = \<lparr>br_path = ce_path e, br_sha = ce_sha e\<rparr>"

datatype node = Plain content_entry | Folder string string string answer
  and answer = Refused nat payload | Listed nat "node list"

fun entryOf :: "node \<Rightarrow> content_entry" where
  "entryOf (Plain e) = e"
| "entryOf (Folder nm p s a) = \<lparr>ce_name = nm, ce_path = p, ce_sha = s, ce_type = ''dir''\<rparr>"

fun blobs :: "answer \<Rightarrow> blob_ref list"
and blobsList :: "node list \<Rightarrow> blob_ref list"
and blobsNode :: "node \<Rightarrow> blob_ref list" where
  "blobs (Refused st p) = []"
| "blobs (Listed st ns) = blobsList ns"
| "blobsList [] = []"
| "blobsList (n # ns) = blobsNode n @ blobsList ns"
| "blobsNode (Plain e) = (if ce_type e = ''file'' then [blobRef e] else [])"
| "blobsNode (Folder nm p s a) = blobs a"

fun height :: "answer \<Rightarrow> nat"
and heightList :: "node list \<Rightarrow> nat"
and heightNode :: "node \<Rightarrow> nat" where
  "height (Refused st p) = 0"
| "height (Listed st ns) = heightList ns"
| "heightList [] = 0"
| "heightList (n # ns) = max (heightNode n) (heightList ns)"
| "heightNode (Plain e) = 0"
| "heightNode (Folder nm p s a) = Suc (height a)"

fun requests :: "string \<Rightarrow> string \<Rightarrow> string \<Rightarrow> string \<Rightarrow> answer \<Rightarrow> trace"
and requestsList :: "string \<Rightarrow> string \<Rightarrow> string \<Rightarrow> node list \<Rightarrow> trace"
and requestsNode :: "string \<Rightarrow> string \<Rightarrow> string \<Rightarrow> node \<Rightarrow> trace" where
  "requests owner repo branch d (Refused st p) = [getContents owner repo d branch]"
| "requests owner repo branch d (Listed st ns) =
     getContents owner repo d branch # requestsList owner repo branch ns"
| "requestsList owner repo branch [] = []"
| "requestsList owner repo branch (n # ns) =
     requestsNode owner repo branch n @ requestsList owner repo branch ns"
| "requestsNode owner repo branch (Plain e) = []"
| "requestsNode owner repo branch (Folder nm p s a) = requests owner repo branch p a"

fun serves :: "provider \<Rightarrow> string \<Rightarrow> string \<Rightarrow> string \<Rightarrow> trace \<Rightarrow> string \<Rightarrow> answer \<Rightarrow> bool"
and servesList :: "provider \<Rightarrow> string \<Rightarrow> string \<Rightarrow> string \<Rightarrow> trace \<Rightarrow> node list \<Rightarrow> bool"
and servesNode :: "provider \<Rightarrow> string \<Rightarrow> string \<Rightarrow> string \<Rightarrow> trace \<Rightarrow> node \<Rightarrow> bool" where
  "serves env owner repo branch tr d (Refused st p) =
     (\<not> ok st \<and> env tr (getContents owner repo d branch) = Resp st p)"
| "serves env owner repo branch tr d (Listed st ns) =
     (ok st \<and>
      env tr (getContents owner repo d branch) = Resp st (ListingData (map entryOf ns)) \<and>
      servesList env owner repo branch (tr @ [getContents owner repo d branch]) ns)"
| "servesList env owner repo branch tr [] = True"
| "servesList env owner repo branch tr (n # ns) =
     (servesNode env owner repo branch tr n \<and>
      servesList env owner repo branch (tr @ requestsNode owner repo branch n) ns)"
| "servesNode env owner repo branch tr (Plain e) = (ce_type e \<noteq> ''dir'')"
| "servesNode env owner repo branch tr (Folder nm p s a) = serves env owner repo branch tr p a"

section \<open>The specification's wording, for comparison\<close>

text \<open>The filter of the tree as the specification words it: the excluded prefix is a selected
  directory path followed by a slash.\<close>

definition claimedTree :: "delete_item list \<Rightarrow> tree_entry list \<Rightarrow> new_tree_entry list" where
  "claimedTree items tree =
     map (\<lambda>item. \<lparr>nt_path = te_path item, nt_mode = te_mode item,
                   nt_type = te_type item, nt_sha = te_sha item\<rparr>)
       (filter (\<lambda>item. te_type item = ''blob'' \<and>
                  \<not> list_ex (\<lambda>i. di_type i = ''file'' \<and> di_path i = te_path item) items \<and>
                  \<not> list_ex (\<lambda>d. di_type d = ''dir'' \<and> startsWith (te_path item) (di_path d @ ''/'')) items)
          tree)"

section \<open>Example inputs\<close>

definition blob :: "string \<Rightarrow> string \<Rightarrow> tree_entry" where
  "blob p s = \<lparr>te_path = p, te_mode = ''100644'', te_type = ''blob'', te_sha = s,
              te_size = Some 1, te_url = []\<rparr>"

definition subtree :: "string \<Rightarrow> string \<Rightarrow> tree_entry" where
  "subtree p s = \<lparr>te_path = p, te_mode = ''040000'', te_type = ''tree'', te_sha = s,
              te_size = None, te_url = []\<rparr>"

definition fiveBlobs :: "tree_entry list" where
  "fiveBlobs = [blob ''readme.md'' ''b1'', subtree ''old'' ''t1'', blob ''old/a.txt'' ''b2'',
     blob ''old/b.txt'' ''b3'', subtree ''old/deep'' ''t2'', blob ''old/deep/c.txt'' ''b4'',
     blob ''src.ts'' ''b5'']"

definition oldAndReadme :: "delete_item list" where
  "oldAndReadme = [\<lparr>di_path = ''old'', di_type = ''dir''\<rparr>, \<lparr>di_path = ''readme.md'', di_type = ''file''\<rparr>]"


text \<open>A provider that serves one delete pipeline over a given tree, answering by position.\<close>

definition repoProvider :: "tree_entry list \<Rightarrow> provider" where
  "repoProvider tree tr rq =
     (if length tr = 0 then Resp 200 (RefData ''c0'')
      else if length tr = 1 then Resp 200 (CommitData ''t0'')
      else if length tr = 2 then Resp 200 (TreeData tree)
      else if length tr = 3 then Resp 201 (ShaData ''t1'')
      else if length tr = 4 then Resp 201 (ShaData ''c1'')
      else Resp 200 (RefData ''c1''))"

text \<open>The same provider with the request at position \<open>k\<close> answered by a 502.\<close>

definition failingAt :: "nat \<Rightarrow> provider \<Rightarrow> provider" where
  "failingAt k p tr rq = (if length tr = k then Resp 502 Malformed else p tr rq)"

definition aliceProfile :: profile where
  "aliceProfile = \<lparr>github_username = ''alice'', github_access_token = ''tok''\<rparr>"

definition deleteOld :: "delete_request http_request" where
  "deleteOld = \<lparr>hr_method = ''POST'',
      hr_json = Some \<lparr>dr_owner = ''alice'', dr_repo = ''site'', dr_branch = None,
                       dr_items = oldAndReadme\<rparr>\<rparr>"

text \<open>A provider that answers every request with success and the same file object.\<close>

definition accepting :: provider where
  "accepting tr rq = Resp 200 (FileData ''aGVsbG8='' ''f00'')"

definition aliceSession :: session where
  "aliceSession = \<lparr>se_user = Some ''u1'', se_profile = Some aliceProfile\<rparr>"

definition emptyTally :: tally where
  "emptyTally = \<lparr>movedCount = 0, skippedCount = 0, details = []\<rparr>"

text \<open>The first end-to-end scenario, and the same move with the \<open>PUT\<close> answered by a 502.\<close>

definition moveReadme :: "move_result result \<times> trace" where
  "moveReadme = moveSingleFile accepting ''alice'' ''site'' ''main'' [] ''a/b.txt'' ''sha1'' ''c/b.txt''"

definition moveReadmeFailing :: "move_result result \<times> trace" where
  "moveReadmeFailing =
     moveSingleFile (failingAt 2 accepting) ''alice'' ''site'' ''main'' [] ''a/b.txt'' ''sha1'' ''c/b.txt''"

definition moveRequest :: "string \<Rightarrow> raw_file list \<Rightarrow> string \<Rightarrow> move_request http_request" where
  "moveRequest owner files destination =
     \<lparr>hr_method = ''POST'',
      hr_json = Some \<lparr>mr_owner = owner, mr_repo = ''site'', mr_files = files,
                       mr_destination = destination, mr_branch = None\<rparr>\<rparr>"

definition fileInB :: FileItem where
  "fileInB = \<lparr>name = ''f.txt'', path = ''b/f.txt'', sha = ''s1'', type = File\<rparr>"

definition docsDir :: FileItem where
  "docsDir = \<lparr>name = ''docs'', path = ''src/docs'', sha = ''s2'', type = Dir\<rparr>"

text \<open>
  A provider over a directory \<open>docs\<close> with a file, a subdirectory holding one file, a
  subdirectory whose listing is refused, and a symbolic link. It serves the file itself as a
  file object, and once a request other than a \<open>GET\<close> has been issued it answers 409. The
  tree \<open>docsTree\<close> records its listings below \<open>docs\<close>. The provider \<open>offline\<close> cannot be
  reached: every fetch is rejected.
\<close>

definition entry :: "string \<Rightarrow> string \<Rightarrow> string \<Rightarrow> content_entry" where
  "entry t p s = \<lparr>ce_name = fileName p, ce_path = p, ce_sha = s, ce_type = t\<rparr>"

definition siteProvider :: provider where
  "siteProvider tr rq =
     (if list_ex (\<lambda>r. rq_method r \<noteq> GET) tr then Resp 409 Malformed
      else if rq_url rq = rq_url (getContents ''alice'' ''site'' ''docs'' ''main'')
      then Resp 200 (ListingData [entry ''file'' ''docs/a.md'' ''b1'', entry ''dir'' ''docs/img'' ''t1'',
             entry ''dir'' ''docs/private'' ''t2'', entry ''symlink'' ''docs/latest'' ''b2''])
      else if rq_url rq = rq_url (getContents ''alice'' ''site'' ''docs/img'' ''main'')
      then Resp 200 (ListingData [entry ''file'' ''docs/img/x.png'' ''b3''])
      else if rq_url rq = rq_url (getContents ''alice'' ''site'' ''docs/a.md'' ''main'')
      then Resp 200 (FileData ''IyBh'' ''b1'')
      else Resp 404 Malformed)"

definition docsTree :: answer where
  "docsTree = Listed 200
     [Plain (entry ''file'' ''docs/a.md'' ''b1''),
      Folder ''img'' ''docs/img'' ''t1'' (Listed 200 [Plain (entry ''file'' ''docs/img/x.png'' ''b3'')]),
      Folder ''private'' ''docs/private'' ''t2'' (Refused 404 Malformed),
      Plain (entry ''symlink'' ''docs/latest'' ''b2'')]"

definition offline :: provider where
  "offline tr rq = NetworkError"

section \<open>Properties of the delete handler\<close>

subsection \<open>The filtered tree\<close>

lemma inDeletedDir_iff:
  "list_ex (\<lambda>dp. startsWith p dp) (dirPaths items) \<longleftrightarrow>
     list_ex (\<lambda>d. di_type d = ''dir'' \<and>
          startsWith p (if endsWith (di_path d) ''/'' then di_path d else di_path d @ ''/'')) items"
  by (induction items) (simp_all add: dirPaths_def)

lemma isDeletedFile_iff:
  "p \<in> filePaths items \<longleftrightarrow> list_ex (\<lambda>i. di_type i = ''file'' \<and> di_path i = p) items"
  by (induction items) (auto simp: filePaths_def)

lemma keptEntry_iff:
  "keptEntry items item \<longleftrightarrow>
     \<not> list_ex (\<lambda>i. di_type i = ''file'' \<and> di_path i = te_path item) items \<and>
     \<not> list_ex (\<lambda>d. di_type d = ''dir'' \<and>
          startsWith (te_path item)
            (if endsWith (di_path d) ''/'' then di_path d else di_path d @ ''/'')) items"
  unfolding keptEntry_def Let_def inDeletedDir_iff isDeletedFile_iff by blast

lemma newTree_as_filter:
  "newTree items tree =
     map (\<lambda>item. \<lparr>nt_path = te_path item, nt_mode = te_mode item,
                   nt_type = te_type item, nt_sha = te_sha item\<rparr>)
       (filter (\<lambda>item. te_type item = ''blob'' \<and>
                  \<not> list_ex (\<lambda>i. di_type i = ''file'' \<and> di_path i = te_path item) items \<and>
                  \<not> list_ex (\<lambda>d. di_type d = ''dir'' \<and>
                       startsWith (te_path item)
                         (if endsWith (di_path d) ''/'' then di_path d else di_path d @ ''/'')) items)
          tree)"
  unfolding newTree_def filter_filter
  by (rule arg_cong[where f="map _"], rule filter_cong) (auto simp: keptEntry_iff)

text \<open>
  Claim C1, as amended. The tree submitted as the new tree object holds exactly the entries of
  the fetched snapshot, in their order, that are of blob type, whose path is not a selected
  file path, and whose path does not start with a selected directory path taken with a final
  slash: the slash is appended only when the directory path does not already end with one.
  Every such entry is kept with its path, mode, type and identifier.
\<close>

theorem newTree_keeps_exactly:
  "newTree items tree =
     map (\<lambda>item. \<lparr>nt_path = te_path item, nt_mode = te_mode item,
                   nt_type = te_type item, nt_sha = te_sha item\<rparr>)
       (filter (\<lambda>item. te_type item = ''blob'' \<and>
                  \<not> list_ex (\<lambda>i. di_type i = ''file'' \<and> di_path i = te_path item) items \<and>
                  \<not> list_ex (\<lambda>d. di_type d = ''dir'' \<and>
                       startsWith (te_path item)
                         (if endsWith (di_path d) ''/'' then di_path d else di_path d @ ''/'')) items)
          tree)"
  by (rule newTree_as_filter)

text \<open>The third end-to-end scenario of the specification: of five blobs, three under
  \<open>old/\<close> and \<open>readme.md\<close> go, and one stays.\<close>

theorem newTree_keeps_exactly_witness:
  "newTree oldAndReadme fiveBlobs =
     [\<lparr>nt_path = ''src.ts'', nt_mode = ''100644'', nt_type = ''blob'', nt_sha = ''b5''\<rparr>]"
  using newTree_keeps_exactly [of oldAndReadme fiveBlobs]
  by (simp add: oldAndReadme_def fiveBlobs_def blob_def subtree_def startsWith_def endsWith_def)

text \<open>
  Claim C1 as it is worded fails for a selected directory whose path ends with a slash: the
  blob \<open>a/b\<close> does not start with \<open>a//\<close>, and yet it is removed.
\<close>

theorem newTree_trailing_slash_counterexample:
  "newTree [\<lparr>di_path = ''a/'', di_type = ''dir''\<rparr>] [blob ''a/b'' ''s'']
     \<noteq> claimedTree [\<lparr>di_path = ''a/'', di_type = ''dir''\<rparr>] [blob ''a/b'' ''s'']"
  by (simp add: newTree_def claimedTree_def keptEntry_def dirPaths_def filePaths_def blob_def
        startsWith_def endsWith_def)

text \<open>Without such a directory in the selection the two filters agree.\<close>

lemma newTree_claimed:
  "list_all (\<lambda>d. di_type d = ''dir'' \<longrightarrow> \<not> endsWith (di_path d) ''/'') items
     \<Longrightarrow> newTree items tree = claimedTree items tree"
  unfolding newTree_as_filter claimedTree_def
  by (rule arg_cong[where f="map _"], rule filter_cong) (auto simp: list_ex_iff list_all_iff)

subsection \<open>The pipeline and the branch pointer\<close>

lemma ok_not_200: "\<not> ok st \<Longrightarrow> st \<noteq> 200"
  by (auto simp: ok_def)

lemma method_simps:
  "rq_method (getRef a b c) = GET" "rq_method (getCommit a b c) = GET"
  "rq_method (getTree a b c) = GET" "rq_method (createTree a b es) = POST"
  "rq_method (createCommit a b m t c) = POST" "rq_method (updateRef a b c d) = PATCH"
  by (simp_all add: getRef_def getCommit_def getTree_def createTree_def createCommit_def
        updateRef_def)

text \<open>Two runs: the pipeline served to its end, and the tree fetch answered by a 502.\<close>

lemma deleteOld_run:
  "deleteItems (repoProvider fiveBlobs) (Some aliceProfile) deleteOld =
     (\<lparr>status = 200, body = DeleteSuccess 2\<rparr>,
      [getRef ''alice'' ''site'' ''main'', getCommit ''alice'' ''site'' ''c0'',
       getTree ''alice'' ''site'' ''t0'',
       createTree ''alice'' ''site''
         [\<lparr>nt_path = ''src.ts'', nt_mode = ''100644'', nt_type = ''blob'', nt_sha = ''b5''\<rparr>],
       createCommit ''alice'' ''site'' ''Batch delete 2 item(s): dir:old, file:readme.md''
         (Some ''t1'') ''c0'',
       updateRef ''alice'' ''site'' ''main'' (Some ''c1'')])"
  by code_simp

lemma deleteOld_failing_run:
  "deleteItems (failingAt 2 (repoProvider fiveBlobs)) (Some aliceProfile) deleteOld =
     (\<lparr>status = 502, body = ErrorBody ''Failed to get tree''\<rparr>,
      [getRef ''alice'' ''site'' ''main'', getCommit ''alice'' ''site'' ''c0'',
       getTree ''alice'' ''site'' ''t0''])"
  by code_simp

lemma patch_shape:
  assumes "deleteItems env profile req = (resp, tr)"
    and "list_ex (\<lambda>r. rq_method r = PATCH) tr"
  shows "\<exists>data b c t es nt nc. hr_json req = Some data \<and>
               tr = [getRef (dr_owner data) (dr_repo data) b,
                     getCommit (dr_owner data) (dr_repo data) c,
                     getTree (dr_owner data) (dr_repo data) t,
                     createTree (dr_owner data) (dr_repo data) (newTree (dr_items data) es),
                     createCommit (dr_owner data) (dr_repo data) (commitMessage (dr_items data)) nt c,
                     updateRef (dr_owner data) (dr_repo data) b nc]"
  using assms unfolding deleteItems_def deleteItemsTry_def fetch_def Let_def respond_def mirror_def
  apply (clarsimp split: option.splits response.splits if_splits simp: method_simps)
  apply blast+
  done

lemma patch_after_success:
  assumes "deleteItems env profile req = (resp, tr)"
    and "list_ex (\<lambda>r. rq_method r = PATCH) tr"
  shows "list_all succeeded (take 5 (replay env [] tr))"
  using assms unfolding deleteItems_def deleteItemsTry_def fetch_def Let_def respond_def mirror_def
  by (clarsimp split: option.splits response.splits if_splits simp: method_simps succeeded_def)

lemma failure_no_patch:
  assumes "deleteItems env profile req = (resp, tr)"
    and "\<not> list_all succeeded (take 5 (replay env [] tr))"
  shows "isError resp \<and> \<not> list_ex (\<lambda>r. rq_method r = PATCH) tr"
  using assms unfolding deleteItems_def deleteItemsTry_def fetch_def Let_def respond_def mirror_def
  by (clarsimp split: option.splits response.splits if_splits
        simp: method_simps succeeded_def isError_def ok_not_200)

lemma no_patch_error:
  assumes "deleteItems env profile req = (resp, tr)"
    and "hr_method req \<noteq> ''OPTIONS''"
    and "\<not> list_ex (\<lambda>r. rq_method r = PATCH) tr"
  shows "isError resp"
  using assms unfolding deleteItems_def deleteItemsTry_def fetch_def Let_def respond_def mirror_def
  by (clarsimp split: option.splits response.splits if_splits
        simp: method_simps isError_def ok_not_200)

lemma only_pipeline_requests:
  assumes "deleteItems env profile req = (resp, tr)"
  shows "list_all (\<lambda>r. rq_method r = GET \<or> createsObject r \<or> rq_method r = PATCH) tr"
  using assms unfolding deleteItems_def deleteItemsTry_def fetch_def Let_def respond_def mirror_def
  by (clarsimp split: option.splits response.splits if_splits
        simp: method_simps createsObject_def createTree_def createCommit_def)

text \<open>
  Claim C2. In a run of the delete handler, a \<open>PATCH\<close> request (the ref update, the one
  request that moves the branch pointer) is issued only as the sixth request, after the ref
  fetch, the commit fetch, the tree fetch, the tree creation and the commit creation, in this
  order, have all been answered with success. When one of these five requests is not answered
  with success, the handler returns an error and has issued no ref update. Whenever a request
  other than the \<open>OPTIONS\<close> preflight ends without a ref update, for whatever reason, the
  response is an error. Every request of a run other than the ref update is a \<open>GET\<close> or
  creates a tree or a commit object.
\<close>

theorem ref_update_only_after_all_steps:
  assumes "deleteItems env profile req = (resp, tr)"
  shows "(issued PATCH tr \<longrightarrow>
            (\<exists>data b c t es nt nc. hr_json req = Some data \<and>
               tr = [getRef (dr_owner data) (dr_repo data) b,
                     getCommit (dr_owner data) (dr_repo data) c,
                     getTree (dr_owner data) (dr_repo data) t,
                     createTree (dr_owner data) (dr_repo data) (newTree (dr_items data) es),
                     createCommit (dr_owner data) (dr_repo data) (commitMessage (dr_items data)) nt c,
                     updateRef (dr_owner data) (dr_repo data) b nc]) \<and>
            list_all succeeded (take 5 (replay env [] tr)))
       \<and> (\<not> list_all succeeded (take 5 (replay env [] tr)) \<longrightarrow>
            isError resp \<and> \<not> issued PATCH tr)
       \<and> (hr_method req \<noteq> ''OPTIONS'' \<and> \<not> issued PATCH tr \<longrightarrow> isError resp)
       \<and> list_all (\<lambda>r. rq_method r = GET \<or> createsObject r \<or> rq_method r = PATCH) tr"
  unfolding issued_def
  using patch_shape [OF assms] patch_after_success [OF assms] failure_no_patch [OF assms]
    no_patch_error [OF assms] only_pipeline_requests [OF assms]
  by blast

theorem ref_update_only_after_all_steps_witness:
  "issued PATCH (snd (deleteItems (repoProvider fiveBlobs) (Some aliceProfile) deleteOld)) \<and>
   list_all succeeded (take 5 (replay (repoProvider fiveBlobs) []
     (snd (deleteItems (repoProvider fiveBlobs) (Some aliceProfile) deleteOld)))) \<and>
   \<not> list_all succeeded (take 5 (replay (failingAt 2 (repoProvider fiveBlobs)) []
     (snd (deleteItems (failingAt 2 (repoProvider fiveBlobs)) (Some aliceProfile) deleteOld)))) \<and>
   isError (fst (deleteItems (failingAt 2 (repoProvider fiveBlobs)) (Some aliceProfile) deleteOld)) \<and>
   \<not> issued PATCH (snd (deleteItems (failingAt 2 (repoProvider fiveBlobs)) (Some aliceProfile)
     deleteOld))"
proof -
  have p: "issued PATCH (snd (deleteItems (repoProvider fiveBlobs) (Some aliceProfile) deleteOld))"
    by (simp add: deleteOld_run issued_def method_simps)
  have f: "\<not> list_all succeeded (take 5 (replay (failingAt 2 (repoProvider fiveBlobs)) []
     (snd (deleteItems (failingAt 2 (repoProvider fiveBlobs)) (Some aliceProfile) deleteOld))))"
    by (simp add: deleteOld_failing_run succeeded_def failingAt_def repoProvider_def ok_def)
  note t = ref_update_only_after_all_steps [OF surjective_pairing]
  show ?thesis
    using p f t [of "repoProvider fiveBlobs" "Some aliceProfile" deleteOld]
      t [of "failingAt 2 (repoProvider fiveBlobs)" "Some aliceProfile" deleteOld]
    by blast
qed

subsection \<open>The count of deleted items\<close>

text \<open>
  Claim C10. A successful delete batch (a response with status 200 to a request other than the
  \<open>OPTIONS\<close> preflight) reports as \<open>deleted\<close> the number of items of the request's selection,
  whatever the tree held.
\<close>

theorem deleted_count:
  assumes "deleteItems env profile req = (resp, tr)"
    and "hr_method req \<noteq> ''OPTIONS''"
    and "status resp = 200"
  shows "\<exists>data. hr_json req = Some data \<and> body resp = DeleteSuccess (length (dr_items data))"
  using assms unfolding deleteItems_def deleteItemsTry_def fetch_def Let_def respond_def mirror_def
  by (auto split: option.splits response.splits if_splits dest: ok_not_200)

text \<open>Two items selected, four blobs removed from the tree: the count is two.\<close>

theorem deleted_count_witness:
  "body (fst (deleteItems (repoProvider fiveBlobs) (Some aliceProfile) deleteOld)) =
     DeleteSuccess 2"
proof -
  have m: "hr_method deleteOld \<noteq> ''OPTIONS''" by (simp add: deleteOld_def)
  have "\<exists>data. hr_json deleteOld = Some data \<and>
          body \<lparr>status = 200, body = DeleteSuccess 2\<rparr> = DeleteSuccess (length (dr_items data))"
    using deleted_count [OF deleteOld_run m] by simp
  then show ?thesis by (simp add: deleteOld_run)
qed

subsection \<open>Validation and authorisation in the delete handler\<close>

text \<open>A path with a \<open>..\<close> segment contains the two dots as a run of characters.\<close>

lemma split_hd_prefix: "split xs c \<noteq> [] \<and> prefix (hd (split xs c)) xs"
  by (induction xs) (auto split: list.splits)

lemma segment_included: "''..'' \<in> set (split p c) \<Longrightarrow> includesStr p ''..''"
proof (induction p)
  case Nil
  then show ?case by simp
next
  case (Cons x xs)
  show ?case
  proof (cases "x = c")
    case True
    with Cons show ?thesis by auto
  next
    case False
    from split_hd_prefix [of xs c] obtain s ss where s: "split xs c = s # ss" "prefix s xs"
      by (cases "split xs c") auto
    with False Cons.prems have "''..'' = x # s \<or> ''..'' \<in> set ss" by simp
    then show ?thesis
    proof
      assume "''..'' = x # s"
      then have x: "x = CHR ''.''" and "s = ''.''" by auto
      with s(2) obtain r where "xs = CHR ''.'' # r" by (cases xs) auto
      with x show ?thesis by simp
    next
      assume "''..'' \<in> set ss"
      with s(1) Cons.IH show ?thesis by simp
    qed
  qed
qed

lemma bad_path_rejected:
  assumes "p = [] \<or> ''..'' \<in> set (split p CHR ''/'') \<or> startsWith p ''/''"
  shows "\<not> pathSchema p"
  using assms segment_included [of p "CHR ''/''"] by (auto simp: pathSchema_def)

text \<open>
  The delete handler answers 400, with no request to the provider, when an item path is empty,
  has a \<open>..\<close> segment or starts with a slash; and 403, with no request to the provider, when
  the caller's provider username is not the owner of the request.
\<close>

lemma delete_rejects_bad_path:
  assumes "hr_method req \<noteq> ''OPTIONS''" and "hr_json req = Some data"
    and "list_ex (\<lambda>i. di_path i = [] \<or> ''..'' \<in> set (split (di_path i) CHR ''/'') \<or>
                      startsWith (di_path i) ''/'') (dr_items data)"
  shows "deleteItems env profile req = (respond 400 (ErrorBody ''Invalid input''), [])"
proof -
  from assms(3) obtain i where "i \<in> set (dr_items data)" and
    "di_path i = [] \<or> ''..'' \<in> set (split (di_path i) CHR ''/'') \<or> startsWith (di_path i) ''/''"
    unfolding list_ex_iff by blast
  with bad_path_rejected [of "di_path i"] have "\<not> list_all itemSchema (dr_items data)"
    unfolding list_all_iff by (auto simp: itemSchema_def)
  then have "\<not> deleteItemsSchema data" by (simp add: deleteItemsSchema_def)
  with assms(1,2) show ?thesis by (simp add: deleteItems_def deleteItemsTry_def)
qed

lemma delete_rejects_other_owner:
  assumes "hr_method req \<noteq> ''OPTIONS''" and "hr_json req = Some data" and "deleteItemsSchema data"
    and "dr_owner data \<noteq> github_username prof"
  shows "deleteItems env (Some prof) req =
           (respond 403 (ErrorBody ''Unauthorized: can only access your own repositories''), [])"
  using assms by (simp add: deleteItems_def deleteItemsTry_def)

section \<open>Properties of the move handler\<close>

subsection \<open>The recursive lister\<close>

text \<open>
  Served a tree of listings that is no higher than the depth bound allows, the lister returns
  the files of the tree and issues the requests of its traversal.
\<close>

lemma lister_on_tree:
  "\<forall>n tr d. serves env owner repo branch tr d a \<longrightarrow> height a < n \<longrightarrow>
      listFilesRecursively n env owner repo branch tr d =
        Some (Returned (blobs a), tr @ requests owner repo branch d a)"
  "\<forall>n tr acc. servesList env owner repo branch tr ns \<longrightarrow> heightList ns \<le> n \<longrightarrow>
      listItems n env owner repo branch tr acc (map entryOf ns) =
        Some (Returned (acc @ blobsList ns), tr @ requestsList owner repo branch ns)"
  "\<forall>n tr. servesNode env owner repo branch tr nd \<longrightarrow> heightNode nd \<le> n \<longrightarrow>
      (case nd of Plain e \<Rightarrow> True
       | Folder nm p s a \<Rightarrow>
           listFilesRecursively n env owner repo branch tr p =
             Some (Returned (blobs a), tr @ requests owner repo branch p a))"
proof (induction a and ns and nd rule: blobs_blobsList_blobsNode.induct)
  case (1 st p)
  show ?case
  proof (intro allI impI)
    fix n :: nat and tr d
    assume s: "serves env owner repo branch tr d (Refused st p)" and h: "height (Refused st p) < n"
    from h obtain m where n: "n = Suc m" by (cases n) auto
    with s show "listFilesRecursively n env owner repo branch tr d =
        Some (Returned (blobs (Refused st p)), tr @ requests owner repo branch d (Refused st p))"
      by (simp add: fetch_def)
  qed
next
  case (2 st ns)
  show ?case
  proof (intro allI impI)
    fix n :: nat and tr d
    assume s: "serves env owner repo branch tr d (Listed st ns)" and h: "height (Listed st ns) < n"
    from h obtain m where n: "n = Suc m" and hm: "heightList ns \<le> m" by (cases n) auto
    let ?g = "getContents owner repo d branch"
    from s have a: "env tr ?g = Resp st (ListingData (map entryOf ns))" "ok st"
      and sl: "servesList env owner repo branch (tr @ [?g]) ns"
      by auto
    with 2 hm have "listItems m env owner repo branch (tr @ [?g]) [] (map entryOf ns) =
                Some (Returned ([] @ blobsList ns), (tr @ [?g]) @ requestsList owner repo branch ns)"
      by blast
    with a n show "listFilesRecursively n env owner repo branch tr d =
        Some (Returned (blobs (Listed st ns)), tr @ requests owner repo branch d (Listed st ns))"
      by (simp add: fetch_def)
  qed
next
  case 3
  show ?case by simp
next
  case (4 nd ns)
  show ?case
  proof (intro allI impI)
    fix n :: nat and tr acc
    assume s: "servesList env owner repo branch tr (nd # ns)" and h: "heightList (nd # ns) \<le> n"
    then have sn: "servesNode env owner repo branch tr nd"
      and sl: "servesList env owner repo branch (tr @ requestsNode owner repo branch nd) ns"
      and hn: "heightNode nd \<le> n" and hl: "heightList ns \<le> n"
      by auto
    from "4.IH"(2) sl hl
    have rest: "listItems n env owner repo branch (tr @ requestsNode owner repo branch nd)
           (acc @ blobsNode nd) (map entryOf ns) =
           Some (Returned ((acc @ blobsNode nd) @ blobsList ns),
                 (tr @ requestsNode owner repo branch nd) @ requestsList owner repo branch ns)"
      by blast
    show "listItems n env owner repo branch tr acc (map entryOf (nd # ns)) =
           Some (Returned (acc @ blobsList (nd # ns)), tr @ requestsList owner repo branch (nd # ns))"
    proof (cases nd)
      case (Plain e)
      with sn have "ce_type e \<noteq> ''dir''" by simp
      with Plain rest show ?thesis by (auto simp: blobRef_def)
    next
      case (Folder nm p s a)
      with "4.IH"(1) sn hn
      have "listFilesRecursively n env owner repo branch tr p =
              Some (Returned (blobs a), tr @ requests owner repo branch p a)"
        by fastforce
      with Folder rest show ?thesis by simp
    qed
  qed
next
  case (5 e)
  show ?case by simp
next
  case (6 nm p s a)
  then show ?case by auto
qed


text \<open>
  Conversely, whenever the lister returns, the provider has served it a tree of listings, and
  what it returns are the files of that tree.
\<close>

lemma listItems_served:
  assumes IH: "\<And>tr d res tr'.
      listFilesRecursively n env owner repo branch tr d = Some (Returned res, tr')
        \<Longrightarrow> \<exists>t. serves env owner repo branch tr d t \<and> height t < n \<and> res = blobs t \<and>
                 tr' = tr @ requests owner repo branch d t"
  shows "listItems n env owner repo branch tr acc items = Some (Returned res, tr') \<Longrightarrow>
           \<exists>ns. items = map entryOf ns \<and> servesList env owner repo branch tr ns \<and>
                heightList ns \<le> n \<and> res = acc @ blobsList ns \<and>
                tr' = tr @ requestsList owner repo branch ns"
proof (induction items arbitrary: tr acc)
  case Nil
  then have "[] = map entryOf [] \<and> servesList env owner repo branch tr [] \<and>
                heightList [] \<le> n \<and> res = acc @ blobsList [] \<and>
                tr' = tr @ requestsList owner repo branch []"
    by simp
  then show ?case by (rule exI)
next
  case (Cons item items)
  show ?case
  proof (cases "ce_type item = ''dir''")
    case False
    let ?acc = "acc @ blobsNode (Plain item)"
    from False Cons.prems have "listItems n env owner repo branch tr ?acc items =
        Some (Returned res, tr')"
      by (auto simp: blobRef_def)
    from Cons.IH [OF this] obtain ns where ns: "items = map entryOf ns"
      "servesList env owner repo branch tr ns" "heightList ns \<le> n" "res = ?acc @ blobsList ns"
      "tr' = tr @ requestsList owner repo branch ns"
      by blast
    with False have "item # items = map entryOf (Plain item # ns) \<and>
        servesList env owner repo branch tr (Plain item # ns) \<and>
        heightList (Plain item # ns) \<le> n \<and> res = acc @ blobsList (Plain item # ns) \<and>
        tr' = tr @ requestsList owner repo branch (Plain item # ns)"
      by simp
    then show ?thesis by (rule exI)
  next
    case True
    with Cons.prems obtain sub tr1 where
      sub: "listFilesRecursively n env owner repo branch tr (ce_path item) = Some (Returned sub, tr1)"
      and run: "listItems n env owner repo branch tr1 (acc @ sub) items = Some (Returned res, tr')"
      by (auto split: option.splits result.splits prod.splits)
    from IH [OF sub] obtain t where t: "serves env owner repo branch tr (ce_path item) t"
      "height t < n" "sub = blobs t" "tr1 = tr @ requests owner repo branch (ce_path item) t"
      by blast
    from Cons.IH [OF run] obtain ns where ns: "items = map entryOf ns"
      "servesList env owner repo branch tr1 ns" "heightList ns \<le> n" "res = (acc @ sub) @ blobsList ns"
      "tr' = tr1 @ requestsList owner repo branch ns"
      by blast
    let ?f = "Folder (ce_name item) (ce_path item) (ce_sha item) t"
    from True have "entryOf ?f = item" by simp
    with t ns have "item # items = map entryOf (?f # ns) \<and>
        servesList env owner repo branch tr (?f # ns) \<and>
        heightList (?f # ns) \<le> n \<and> res = acc @ blobsList (?f # ns) \<and>
        tr' = tr @ requestsList owner repo branch (?f # ns)"
      by simp
    then show ?thesis by (rule exI)
  qed
qed

lemma lister_served:
  "listFilesRecursively n env owner repo branch tr d = Some (Returned res, tr')
     \<Longrightarrow> \<exists>t. serves env owner repo branch tr d t \<and> height t < n \<and> res = blobs t \<and>
              tr' = tr @ requests owner repo branch d t"
proof (induction n arbitrary: tr d res tr')
  case 0
  then show ?case by simp
next
  case (Suc n)
  let ?g = "getContents owner repo d branch"
  show ?case
  proof (cases "env tr ?g")
    case NetworkError
    with Suc.prems show ?thesis by (simp add: fetch_def)
  next
    case (Resp st p)
    show ?thesis
    proof (cases "ok st")
      case False
      with Resp Suc.prems have "serves env owner repo branch tr d (Refused st p) \<and>
          height (Refused st p) < Suc n \<and> res = blobs (Refused st p) \<and>
          tr' = tr @ requests owner repo branch d (Refused st p)"
        by (auto simp: fetch_def)
      then show ?thesis by (rule exI)
    next
      case True
      with Resp Suc.prems obtain items where p: "p = ListingData items"
        and run: "listItems n env owner repo branch (tr @ [?g]) [] items = Some (Returned res, tr')"
        by (cases p) (auto simp: fetch_def)
      from listItems_served [of n env owner repo branch, OF Suc.IH run]
      obtain ns where ns: "items = map entryOf ns" "servesList env owner repo branch (tr @ [?g]) ns"
        "heightList ns \<le> n" "res = [] @ blobsList ns"
        "tr' = (tr @ [?g]) @ requestsList owner repo branch ns"
        by blast
      with Resp True p have "serves env owner repo branch tr d (Listed st ns) \<and>
          height (Listed st ns) < Suc n \<and> res = blobs (Listed st ns) \<and>
          tr' = tr @ requests owner repo branch d (Listed st ns)"
        by simp
      then show ?thesis by (rule exI)
    qed
  qed
qed

text \<open>
  Claim C9, as amended. When the provider answers the contents requests of the traversal with
  listings or with failure statuses, the lister, given a depth bound above the height to which
  the directories are nested, returns: its result is the sequence, in the order of the
  listings and depth first, of path and identifier of every entry of type \<open>file\<close> found under
  the directory through listings that were granted; directory entries and entries of any other
  type are left out. Whenever the lister returns, its result is of this kind. At every point
  of the recursion (any history, any directory path), a call whose contents request is answered
  with a failure status returns the empty sequence and raises no error; a call whose fetch is
  rejected, or is answered with success by something that is not a listing, raises an error.
\<close>

theorem lister_returns_served_files:
  "(serves env owner repo branch tr dirPath t \<and> height t < n
      \<longrightarrow> listFilesRecursively n env owner repo branch tr dirPath =
            Some (Returned (blobs t), tr @ requests owner repo branch dirPath t))
   \<and> (listFilesRecursively n env owner repo branch tr dirPath = Some (Returned res, tr')
      \<longrightarrow> (\<exists>t. serves env owner repo branch tr dirPath t \<and> height t < n \<and> res = blobs t \<and>
               tr' = tr @ requests owner repo branch dirPath t))
   \<and> (\<forall>st p. env tr (getContents owner repo dirPath branch) = Resp st p \<and> \<not> ok st
         \<longrightarrow> listFilesRecursively (Suc m) env owner repo branch tr dirPath =
               Some (Returned [], tr @ [getContents owner repo dirPath branch]))
   \<and> (env tr (getContents owner repo dirPath branch) = NetworkError
         \<longrightarrow> listFilesRecursively (Suc m) env owner repo branch tr dirPath =
               Some (Threw ''fetch failed'', tr @ [getContents owner repo dirPath branch]))
   \<and> (\<forall>st p. env tr (getContents owner repo dirPath branch) = Resp st p \<and> ok st \<and> listing p = None
         \<longrightarrow> listFilesRecursively (Suc m) env owner repo branch tr dirPath =
               Some (Threw ''items is not iterable'', tr @ [getContents owner repo dirPath branch]))"
proof (intro conjI impI allI)
  assume "serves env owner repo branch tr dirPath t \<and> height t < n"
  with lister_on_tree(1) [of env owner repo branch t]
  show "listFilesRecursively n env owner repo branch tr dirPath =
            Some (Returned (blobs t), tr @ requests owner repo branch dirPath t)"
    by blast
next
  assume "listFilesRecursively n env owner repo branch tr dirPath = Some (Returned res, tr')"
  then show "\<exists>t. serves env owner repo branch tr dirPath t \<and> height t < n \<and> res = blobs t \<and>
               tr' = tr @ requests owner repo branch dirPath t"
    by (rule lister_served)
qed (simp_all add: fetch_def)

lemma docs_served: "serves siteProvider ''alice'' ''site'' ''main'' [] ''docs'' docsTree"
  by code_simp

theorem lister_returns_served_files_witness:
  "listFilesRecursively 2 siteProvider ''alice'' ''site'' ''main'' [] ''docs'' =
      Some (Returned [\<lparr>br_path = ''docs/a.md'', br_sha = ''b1''\<rparr>,
                      \<lparr>br_path = ''docs/img/x.png'', br_sha = ''b3''\<rparr>],
            [getContents ''alice'' ''site'' ''docs'' ''main'',
             getContents ''alice'' ''site'' ''docs/img'' ''main'',
             getContents ''alice'' ''site'' ''docs/private'' ''main''])
   \<and> listFilesRecursively 1 siteProvider ''alice'' ''site'' ''main''
        [getContents ''alice'' ''site'' ''docs'' ''main''] ''docs/private'' =
      Some (Returned [], [getContents ''alice'' ''site'' ''docs'' ''main'',
                          getContents ''alice'' ''site'' ''docs/private'' ''main''])
   \<and> listFilesRecursively 1 offline ''alice'' ''site'' ''main'' [] ''docs'' =
      Some (Threw ''fetch failed'', [getContents ''alice'' ''site'' ''docs'' ''main''])
   \<and> listFilesRecursively 1 siteProvider ''alice'' ''site'' ''main'' [] ''docs/a.md'' =
      Some (Threw ''items is not iterable'', [getContents ''alice'' ''site'' ''docs/a.md'' ''main''])
   \<and> (\<exists>t. serves siteProvider ''alice'' ''site'' ''main'' [] ''docs'' t \<and> height t < 2 \<and>
          blobs t = [\<lparr>br_path = ''docs/a.md'', br_sha = ''b1''\<rparr>,
                     \<lparr>br_path = ''docs/img/x.png'', br_sha = ''b3''\<rparr>])"
proof -
  have h: "height docsTree < 2" by code_simp
  have b: "blobs docsTree = [\<lparr>br_path = ''docs/a.md'', br_sha = ''b1''\<rparr>,
                             \<lparr>br_path = ''docs/img/x.png'', br_sha = ''b3''\<rparr>]"
    by code_simp
  have q: "requests ''alice'' ''site'' ''main'' ''docs'' docsTree =
            [getContents ''alice'' ''site'' ''docs'' ''main'',
             getContents ''alice'' ''site'' ''docs/img'' ''main'',
             getContents ''alice'' ''site'' ''docs/private'' ''main'']"
    by code_simp
  have f: "siteProvider [getContents ''alice'' ''site'' ''docs'' ''main'']
             (getContents ''alice'' ''site'' ''docs/private'' ''main'') = Resp 404 Malformed \<and> \<not> ok 404"
    by code_simp
  have o: "offline [] (getContents ''alice'' ''site'' ''docs'' ''main'') = NetworkError"
    by (simp add: offline_def)
  have c: "siteProvider [] (getContents ''alice'' ''site'' ''docs/a.md'' ''main'') =
             Resp 200 (FileData ''IyBh'' ''b1'') \<and> ok 200 \<and> listing (FileData ''IyBh'' ''b1'') = None"
    by code_simp
  from lister_returns_served_files [of siteProvider "''alice''" "''site''" "''main''" "[]" "''docs''"
      docsTree 2] docs_served h b q
  have 1: "listFilesRecursively 2 siteProvider ''alice'' ''site'' ''main'' [] ''docs'' =
      Some (Returned [\<lparr>br_path = ''docs/a.md'', br_sha = ''b1''\<rparr>,
                      \<lparr>br_path = ''docs/img/x.png'', br_sha = ''b3''\<rparr>],
            [getContents ''alice'' ''site'' ''docs'' ''main'',
             getContents ''alice'' ''site'' ''docs/img'' ''main'',
             getContents ''alice'' ''site'' ''docs/private'' ''main''])"
    by simp
  from lister_returns_served_files [of siteProvider "''alice''" "''site''" "''main''"
      "[getContents ''alice'' ''site'' ''docs'' ''main'']" "''docs/private''" docsTree 0 _ _ 0] f
  have 2: "listFilesRecursively 1 siteProvider ''alice'' ''site'' ''main''
        [getContents ''alice'' ''site'' ''docs'' ''main''] ''docs/private'' =
      Some (Returned [], [getContents ''alice'' ''site'' ''docs'' ''main'',
                          getContents ''alice'' ''site'' ''docs/private'' ''main''])"
    by simp
  from lister_returns_served_files [of offline "''alice''" "''site''" "''main''" "[]" "''docs''"
      docsTree 0 _ _ 0] o
  have 3: "listFilesRecursively 1 offline ''alice'' ''site'' ''main'' [] ''docs'' =
      Some (Threw ''fetch failed'', [getContents ''alice'' ''site'' ''docs'' ''main''])"
    by simp
  from lister_returns_served_files [of siteProvider "''alice''" "''site''" "''main''" "[]"
      "''docs/a.md''" docsTree 0 _ _ 0] c
  have 4: "listFilesRecursively 1 siteProvider ''alice'' ''site'' ''main'' [] ''docs/a.md'' =
      Some (Threw ''items is not iterable'', [getContents ''alice'' ''site'' ''docs/a.md'' ''main''])"
    by simp
  from 1 lister_returns_served_files [of siteProvider "''alice''" "''site''" "''main''" "[]" "''docs''"
      docsTree 2 "[\<lparr>br_path = ''docs/a.md'', br_sha = ''b1''\<rparr>,
                   \<lparr>br_path = ''docs/img/x.png'', br_sha = ''b3''\<rparr>]"
      "[getContents ''alice'' ''site'' ''docs'' ''main'',
        getContents ''alice'' ''site'' ''docs/img'' ''main'',
        getContents ''alice'' ''site'' ''docs/private'' ''main'']"]
  have 5: "\<exists>t. serves siteProvider ''alice'' ''site'' ''main'' [] ''docs'' t \<and> height t < 2 \<and>
          blobs t = [\<lparr>br_path = ''docs/a.md'', br_sha = ''b1''\<rparr>,
                     \<lparr>br_path = ''docs/img/x.png'', br_sha = ''b3''\<rparr>]"
    by metis
  from 1 2 3 4 5 show ?thesis by blast
qed

text \<open>
  Claim C9 as it is worded fails in two ways. When the fetch itself fails, as with a provider
  that cannot be reached, the lister raises instead of returning the empty sequence. And the
  blob \<open>docs/latest\<close>, a symbolic link that the listing of \<open>docs\<close> holds and that is no
  subdirectory, is not in the sequence returned.
\<close>

theorem lister_raises_counterexample:
  "listFilesRecursively 1 offline ''alice'' ''site'' ''main'' [] ''docs'' =
      Some (Threw ''fetch failed'', [getContents ''alice'' ''site'' ''docs'' ''main''])
   \<and> siteProvider [] (getContents ''alice'' ''site'' ''docs'' ''main'') =
      Resp 200 (ListingData [entry ''file'' ''docs/a.md'' ''b1'', entry ''dir'' ''docs/img'' ''t1'',
             entry ''dir'' ''docs/private'' ''t2'', entry ''symlink'' ''docs/latest'' ''b2''])
   \<and> listFilesRecursively 2 siteProvider ''alice'' ''site'' ''main'' [] ''docs'' =
     Some (Returned [\<lparr>br_path = ''docs/a.md'', br_sha = ''b1''\<rparr>,
                     \<lparr>br_path = ''docs/img/x.png'', br_sha = ''b3''\<rparr>],
           [getContents ''alice'' ''site'' ''docs'' ''main'',
            getContents ''alice'' ''site'' ''docs/img'' ''main'',
            getContents ''alice'' ''site'' ''docs/private'' ''main''])"
  by code_simp

subsection \<open>The single-item mover\<close>

lemma move_method_simps:
  "rq_method (getContents a b c d) = GET" "rq_method (putContents a b c m x d s) = PUT"
  "rq_method (deleteContents a b c m e d) = DELETE"
  by (simp_all add: getContents_def putContents_def deleteContents_def)

lemma delete_shape:
  assumes "moveSingleFile env owner repo branch tr srcPath srcSha destPath = (res, tr')"
  shows "\<exists>new. tr' = tr @ new \<and>
     (list_ex (\<lambda>r. rq_method r = DELETE) new \<longrightarrow>
        (\<exists>content destSha r0 r1 r2 r3.
            new = [getContents owner repo srcPath branch, getContents owner repo destPath branch,
                   putContents owner repo destPath (''Move '' @ srcPath @ '' to '' @ destPath)
                     content branch destSha,
                   deleteContents owner repo srcPath (''Delete old file '' @ srcPath) srcSha branch] \<and>
            replay env tr new = [r0, r1, r2, r3] \<and> succeeded r0 \<and> r1 \<noteq> NetworkError \<and> succeeded r2))"
  using assms unfolding moveSingleFile_def fetch_def
  apply (clarsimp split: option.splits response.splits if_splits prod.splits
      simp: move_method_simps succeeded_def)
  apply blast+
  done

lemma failed_step_no_delete:
  assumes "moveSingleFile env owner repo branch tr srcPath srcSha destPath = (res, tr @ new)"
    and "(new \<noteq> [] \<and> \<not> succeeded (replay env tr new ! 0)) \<or>
         (1 < length new \<and> replay env tr new ! 1 = NetworkError) \<or>
         (2 < length new \<and> \<not> succeeded (replay env tr new ! 2))"
  shows "\<not> list_ex (\<lambda>r. rq_method r = DELETE) new \<and> (\<exists>e. res = Threw e)"
  using assms unfolding moveSingleFile_def fetch_def
  by (clarsimp split: option.splits response.splits if_splits prod.splits
      simp: move_method_simps succeeded_def)

lemma moveReadme_run:
  "moveReadme = (Returned \<lparr>r_status = ''moved'', r_reason = None\<rparr>,
      [getContents ''alice'' ''site'' ''a/b.txt'' ''main'',
       getContents ''alice'' ''site'' ''c/b.txt'' ''main'',
       putContents ''alice'' ''site'' ''c/b.txt'' ''Move a/b.txt to c/b.txt'' (Some ''aGVsbG8='')
         ''main'' (Some ''f00''),
       deleteContents ''alice'' ''site'' ''a/b.txt'' ''Delete old file a/b.txt'' ''sha1'' ''main''])"
  by code_simp

lemma moveReadmeFailing_run:
  "moveReadmeFailing = (Threw ''Failed to create c/b.txt'',
      [getContents ''alice'' ''site'' ''a/b.txt'' ''main'',
       getContents ''alice'' ''site'' ''c/b.txt'' ''main'',
       putContents ''alice'' ''site'' ''c/b.txt'' ''Move a/b.txt to c/b.txt'' (Some ''aGVsbG8='')
         ''main'' (Some ''f00'')])"
  by code_simp

text \<open>
  Claim C3. In a run of the single-item mover, a \<open>DELETE\<close> request is issued only as the
  fourth request of the run, for the source path, after the fetch of the source was answered
  with success, the probe of the destination was answered, and the \<open>PUT\<close> of the destination
  was answered with success. When the fetch of the source or the \<open>PUT\<close> is not answered with
  success, or the probe raises, the mover throws and has issued no \<open>DELETE\<close>: the source blob
  is still there.
\<close>

theorem delete_only_after_create:
  assumes "moveSingleFile env owner repo branch tr srcPath srcSha destPath = (res, tr')"
  shows "\<exists>new. tr' = tr @ new \<and>
     (issued DELETE new \<longrightarrow>
        (\<exists>content destSha r0 r1 r2 r3.
            new = [getContents owner repo srcPath branch, getContents owner repo destPath branch,
                   putContents owner repo destPath (''Move '' @ srcPath @ '' to '' @ destPath)
                     content branch destSha,
                   deleteContents owner repo srcPath (''Delete old file '' @ srcPath) srcSha branch] \<and>
            replay env tr new = [r0, r1, r2, r3] \<and> succeeded r0 \<and> r1 \<noteq> NetworkError \<and> succeeded r2)) \<and>
     ((new \<noteq> [] \<and> \<not> succeeded (replay env tr new ! 0)) \<or>
      (1 < length new \<and> replay env tr new ! 1 = NetworkError) \<or>
      (2 < length new \<and> \<not> succeeded (replay env tr new ! 2))
      \<longrightarrow> \<not> issued DELETE new \<and> (\<exists>e. res = Threw e))"
proof -
  from delete_shape [OF assms] obtain new where new: "tr' = tr @ new"
    and shape: "list_ex (\<lambda>r. rq_method r = DELETE) new \<longrightarrow>
        (\<exists>content destSha r0 r1 r2 r3.
            new = [getContents owner repo srcPath branch, getContents owner repo destPath branch,
                   putContents owner repo destPath (''Move '' @ srcPath @ '' to '' @ destPath)
                     content branch destSha,
                   deleteContents owner repo srcPath (''Delete old file '' @ srcPath) srcSha branch] \<and>
            replay env tr new = [r0, r1, r2, r3] \<and> succeeded r0 \<and> r1 \<noteq> NetworkError \<and> succeeded r2)"
    by blast
  from assms new have run: "moveSingleFile env owner repo branch tr srcPath srcSha destPath = (res, tr @ new)"
    by simp
  show ?thesis
    unfolding issued_def using new shape failed_step_no_delete [OF run] by blast
qed

theorem delete_only_after_create_witness:
  "issued DELETE (snd moveReadme) \<and> \<not> issued DELETE (snd moveReadmeFailing) \<and>
   (\<exists>e. fst moveReadmeFailing = Threw e)"
proof -
  have a: "issued DELETE (snd moveReadme)"
    by (simp add: moveReadme_run issued_def move_method_simps)
  have r: "moveSingleFile (failingAt 2 accepting) ''alice'' ''site'' ''main'' [] ''a/b.txt'' ''sha1''
             ''c/b.txt'' = (fst moveReadmeFailing, snd moveReadmeFailing)"
    by (simp add: moveReadmeFailing_def)
  from delete_only_after_create [OF r] obtain new where n: "snd moveReadmeFailing = [] @ new"
    and f: "(new \<noteq> [] \<and> \<not> succeeded (replay (failingAt 2 accepting) [] new ! 0)) \<or>
      (1 < length new \<and> replay (failingAt 2 accepting) [] new ! 1 = NetworkError) \<or>
      (2 < length new \<and> \<not> succeeded (replay (failingAt 2 accepting) [] new ! 2))
      \<longrightarrow> \<not> issued DELETE new \<and> (\<exists>e. fst moveReadmeFailing = Threw e)"
    by blast
  have "2 < length (snd moveReadmeFailing) \<and>
        \<not> succeeded (replay (failingAt 2 accepting) [] (snd moveReadmeFailing) ! 2)"
    by (simp add: moveReadmeFailing_run failingAt_def succeeded_def ok_def)
  with n f have "\<not> issued DELETE (snd moveReadmeFailing) \<and> (\<exists>e. fst moveReadmeFailing = Threw e)"
    by simp
  with a show ?thesis by blast
qed

subsection \<open>Items already in the destination\<close>

text \<open>
  Claim C8, as amended. An item whose containing folder is the destination is recorded as
  skipped, with status \<open>skipped (same folder)\<close> when it is a file and
  \<open>skipped (same parent)\<close> when it is a directory; the loop goes on with the next item from
  the same trace, so no request is issued for the item. The single-item mover returns
  \<open>skipped\<close>, with the trace unchanged, when the source path is the destination path.
\<close>

theorem same_folder_is_skipped:
  assumes "sourceDir (fi_path file) = destination"
  shows "moveLoop fuel env owner repo branch destination tr t (file # files) =
           moveLoop fuel env owner repo branch destination tr
             (skip t (fi_path file) destination
                (if fi_type file = File then ''skipped (same folder)''
                 else ''skipped (same parent)'')) files
         \<and> moveSingleFile env owner repo branch tr srcPath srcSha srcPath =
             (Returned \<lparr>r_status = ''skipped'', r_reason = Some ''same path''\<rparr>, tr)"
  using assms by (simp add: precheck_def moveSingleFile_def)

theorem same_folder_is_skipped_witness:
  "moveLoop 1 accepting ''alice'' ''site'' ''main'' ''a'' [] emptyTally
       [\<lparr>fi_path = ''a/b.txt'', fi_sha = ''s1'', fi_type = File\<rparr>,
        \<lparr>fi_path = ''a/d'', fi_sha = [], fi_type = Dir\<rparr>] =
     Some (Returned (Finished \<lparr>movedCount = 0, skippedCount = 2,
        details = [\<lparr>d_src = ''a/b.txt'', d_dest = ''a'', d_status = ''skipped (same folder)''\<rparr>,
                   \<lparr>d_src = ''a/d'', d_dest = ''a'', d_status = ''skipped (same parent)''\<rparr>]\<rparr>), [])"
proof -
  have a: "sourceDir (fi_path \<lparr>fi_path = ''a/b.txt'', fi_sha = ''s1'', fi_type = File\<rparr>) = ''a''"
    by code_simp
  have b: "sourceDir (fi_path \<lparr>fi_path = ''a/d'', fi_sha = [], fi_type = Dir\<rparr>) = ''a''"
    by code_simp
  show ?thesis
    using same_folder_is_skipped [OF a, THEN conjunct1] same_folder_is_skipped [OF b, THEN conjunct1]
    by (simp add: skip_def emptyTally_def)
qed

text \<open>
  Claim C8 as it is worded fails for a directory item: the directory \<open>a/d\<close> lies in the
  destination \<open>a\<close>, and the status recorded for it is not \<open>skipped (same folder)\<close>.
\<close>

theorem same_parent_counterexample:
  "sourceDir ''a/d'' = ''a'' \<and>
   moveLoop 1 accepting ''alice'' ''site'' ''main'' ''a'' [] emptyTally
       [\<lparr>fi_path = ''a/d'', fi_sha = [], fi_type = Dir\<rparr>] \<noteq>
     Some (Returned (Finished (skip emptyTally ''a/d'' ''a'' ''skipped (same folder)'')), [])"
  by code_simp

subsection \<open>The cycle check\<close>

text \<open>
  When the loop comes to a directory that the checks reject, the request is answered with 400
  and no request is issued for this item or for the items after it.
\<close>

lemma cycle_rejected_when_reached:
  assumes "precheck destination file = RejectCycle"
  shows "moveLoop fuel env owner repo branch destination tr t (file # files) =
           Some (Returned (Respond (respond 400
                   (ErrorBody (cycleMessage (fi_path file) destination)))), tr)"
  using assms by simp

text \<open>
  Claim C4 says that a batch holding a directory that is the destination is rejected before any
  blob is created or deleted, also for the items listed before that directory. The handler
  does otherwise: with the file \<open>a.txt\<close> listed before the directory \<open>docs\<close> and the
  destination \<open>docs\<close>, the file is copied to \<open>docs/a.txt\<close> and deleted at its source, and
  then the request is answered with the 400 of the cycle check.
\<close>

theorem cycle_rejected_after_earlier_move:
  "moveFiles 1 accepting aliceSession
     (moveRequest ''alice''
        [\<lparr>rf_path = ''a.txt'', rf_sha = ''s1'', rf_type = ''file''\<rparr>,
         \<lparr>rf_path = ''docs'', rf_sha = [], rf_type = ''dir''\<rparr>] ''docs'') =
   Some (\<lparr>status = 400, body = ErrorBody (cycleMessage ''docs'' ''docs'')\<rparr>,
         [getContents ''alice'' ''site'' ''a.txt'' ''main'',
          getContents ''alice'' ''site'' ''docs/a.txt'' ''main'',
          putContents ''alice'' ''site'' ''docs/a.txt'' ''Move a.txt to docs/a.txt''
            (Some ''aGVsbG8='') ''main'' (Some ''f00''),
          deleteContents ''alice'' ''site'' ''a.txt'' ''Delete old file a.txt'' ''s1'' ''main''])"
  by code_simp

subsection \<open>The client-side validator and the execution-side check\<close>

lemma checkSelected_iff:
  "invalid (checkSelected d files) \<longleftrightarrow>
     list_ex (\<lambda>f. type f = Dir \<and> (d = path f \<or> startsWith d (path f @ ''/''))) files"
  by (induction files) auto

lemma startsWith_nonempty: "startsWith d (p @ ''/'') \<Longrightarrow> d \<noteq> []"
  by (auto simp: startsWith_def)

lemma precheck_sent:
  "precheck d (sentFile f) \<noteq> Proceed \<longleftrightarrow>
     d = sourceDir (path f) \<or> (type f = Dir \<and> (d = path f \<or> startsWith d (path f @ ''/'')))"
  by (cases "type f") (auto simp: precheck_def sentFile_def dest: startsWith_nonempty)

lemma isInvalidDestination_eq:
  "isInvalidDestination files currentPath dest =
     (if resolve dest = currentPath
      then \<lparr>invalid = True, reason = Some ''same as current folder''\<rparr>
      else checkSelected (resolve dest) files)"
  by (simp add: isInvalidDestination_def Let_def)

text \<open>
  Claim C5, as amended. For a selection that is not empty and whose items all lie in the
  current folder, and for every destination, the client-side validator marks the destination
  invalid if and only if the execution-side check skips or rejects some item of the selection
  as the client sends it.
\<close>

theorem validators_agree:
  assumes "files \<noteq> []"
    and "list_all (\<lambda>f. sourceDir (path f) = currentPath) files"
  shows "invalid (isInvalidDestination files currentPath dest) \<longleftrightarrow>
           serverInvalid (resolve dest) (map sentFile files)"
proof (cases "resolve dest = currentPath")
  case True
  from assms obtain f where "f \<in> set files" "sourceDir (path f) = currentPath"
    by (cases files) auto
  with True have "f \<in> set files" "resolve dest = sourceDir (path f)"
    by simp_all
  then have "serverInvalid (resolve dest) (map sentFile files)"
    unfolding serverInvalid_def list_ex_iff by (auto simp: precheck_sent)
  with True show ?thesis by (simp add: isInvalidDestination_eq)
next
  case False
  with assms(2) have "serverInvalid (resolve dest) (map sentFile files) \<longleftrightarrow>
      list_ex (\<lambda>f. type f = Dir \<and> (resolve dest = path f \<or> startsWith (resolve dest) (path f @ ''/''))) files"
    by (auto simp: serverInvalid_def list_ex_iff list_all_iff precheck_sent)
  with False show ?thesis by (simp add: isInvalidDestination_eq checkSelected_iff)
qed

theorem validators_agree_witness:
  "invalid (isInvalidDestination [docsDir] ''src'' ''src/docs/img'') \<and>
   serverInvalid (resolve ''src/docs/img'') (map sentFile [docsDir])"
proof -
  have a: "[docsDir] \<noteq> []" by simp
  have b: "list_all (\<lambda>f. sourceDir (path f) = ''src'') [docsDir]" by code_simp
  have c: "invalid (isInvalidDestination [docsDir] ''src'' ''src/docs/img'')" by code_simp
  from validators_agree [OF a b, of "''src/docs/img''"] c show ?thesis by simp
qed

text \<open>
  Claim C5 as it is worded fails: the execution-side check has no current folder among its
  inputs. With the current folder \<open>a\<close> and the selected file \<open>b/f.txt\<close>, the client marks the
  destination \<open>a\<close> invalid, and the execution-side check lets the move proceed.
\<close>

theorem validators_disagree_counterexample:
  "invalid (isInvalidDestination [fileInB] ''a'' ''a'') \<and>
   \<not> serverInvalid (resolve ''a'') (map sentFile [fileInB])"
  by code_simp

subsection \<open>Validation and authorisation in the move handler\<close>

text \<open>
  Claim C6 says that a batch request with an item path that holds a \<open>..\<close> segment is rejected
  with a 400 before any remote call. The move handler does otherwise: its schema takes any
  string as a path, and the request below is carried out with four requests to the provider
  and answered with status 200.
\<close>

theorem move_accepts_traversal_path:
  "moveFiles 1 accepting aliceSession
     (moveRequest ''alice'' [\<lparr>rf_path = ''../secret.txt'', rf_sha = ''s1'', rf_type = ''file''\<rparr>] ''pub'') =
   Some (\<lparr>status = 200,
           body = MoveSuccess 1 0
             [\<lparr>d_src = ''../secret.txt'', d_dest = ''pub/secret.txt'', d_status = ''moved''\<rparr>]\<rparr>,
         [getContents ''alice'' ''site'' ''../secret.txt'' ''main'',
          getContents ''alice'' ''site'' ''pub/secret.txt'' ''main'',
          putContents ''alice'' ''site'' ''pub/secret.txt'' ''Move ../secret.txt to pub/secret.txt''
            (Some ''aGVsbG8='') ''main'' (Some ''f00''),
          deleteContents ''alice'' ''site'' ''../secret.txt'' ''Delete old file ../secret.txt''
            ''s1'' ''main''])"
  by code_simp

text \<open>
  Claim C7 says that a batch request whose owner is not the caller's provider username is
  rejected with a 403 before any provider call. The move handler does otherwise: it never reads
  the username, and the request below, by the caller \<open>alice\<close> on a repository of \<open>bob\<close>, is
  carried out with four requests to the provider and answered with status 200.
\<close>

theorem move_ignores_owner:
  "github_username aliceProfile \<noteq> ''bob'' \<and>
   moveFiles 1 accepting aliceSession
     (moveRequest ''bob'' [\<lparr>rf_path = ''notes.md'', rf_sha = ''s1'', rf_type = ''file''\<rparr>] ''old'') =
   Some (\<lparr>status = 200,
           body = MoveSuccess 1 0
             [\<lparr>d_src = ''notes.md'', d_dest = ''old/notes.md'', d_status = ''moved''\<rparr>]\<rparr>,
         [getContents ''bob'' ''site'' ''notes.md'' ''main'',
          getContents ''bob'' ''site'' ''old/notes.md'' ''main'',
          putContents ''bob'' ''site'' ''old/notes.md'' ''Move notes.md to old/notes.md''
            (Some ''aGVsbG8='') ''main'' (Some ''f00''),
          deleteContents ''bob'' ''site'' ''notes.md'' ''Delete old file notes.md'' ''s1'' ''main''])"
  by code_simp

end
